theory Spec2Isabelle
  imports Complex_Main
begin

section \<open>Errors and rank-2 tensors\<close>

text \<open>
  The likelihoods of \<^verbatim>\<open>gpflow/likelihoods.py\<close> work on rank-2 tensors of shape
  \<open>[N, P]\<close>. A tensor is modelled by its number of columns and its list of rows (the
  number of columns is kept apart, since a batch of no rows still has a column count).
  Entries are real numbers: rounding is not modelled. Every raise of the source and every
  failure of a tensor primitive is a value \<open>Inl e\<close> of the result type.
\<close>

datatype error = NotImplementedError | InvalidArgumentError | ValueError | TypeError
  | AttributeError | IndexError

record tensor =
  ncols :: nat
  rows :: "real list list"

definition nrows :: "tensor \<Rightarrow> nat" where
  "nrows T = length (rows T)"

definition wf_tensor :: "tensor \<Rightarrow> bool" where
  "wf_tensor T = list_all (\<lambda>r. length r = ncols T) (rows T)"

text \<open>Running a list of fallible computations in order: the first failure is the result.\<close>

fun sequence_err :: "(error + 'a) list \<Rightarrow> error + 'a list" where
  "sequence_err [] = Inr []"
| "sequence_err (Inl e # _) = Inl e"
| "sequence_err (Inr x # rs) =
     (case sequence_err rs of Inl e \<Rightarrow> Inl e | Inr xs \<Rightarrow> Inr (x # xs))"

section \<open>Tensor primitives used by the switched likelihood\<close>

text \<open>\<^verbatim>\<open>Y[:, -1]\<close>: the last column; the index \<open>-1\<close> is out of bounds when there is no column.\<close>

definition last_col :: "tensor \<Rightarrow> error + real list" where
  "last_col Y = (if ncols Y = 0 then Inl ValueError else Inr (map last (rows Y)))"

text \<open>\<^verbatim>\<open>Y[:, :-1]\<close>: all columns but the last.\<close>

definition drop_last_col :: "tensor \<Rightarrow> tensor" where
  "drop_last_col Y = \<lparr>ncols = ncols Y - 1, rows = map butlast (rows Y)\<rparr>"

text \<open>
  \<^verbatim>\<open>tf.cast(ind, tf.int32)\<close> and \<^verbatim>\<open>tf.cast(Y, tf.int64)\<close>: a cast to an integer type
  truncates towards zero (the range of the integer type is not modelled).
\<close>

definition tf_cast_int :: "real \<Rightarrow> int" where
  "tf_cast_int x = (if 0 \<le> x then \<lfloor>x\<rfloor> else \<lceil>x\<rceil>)"

text \<open>
  \<^verbatim>\<open>tf.dynamic_partition(data, partitions, num_partitions)\<close>: output \<open>k\<close> holds, in input
  order, the slices of \<open>data\<close> whose partition index is \<open>k\<close>. The operation needs at least
  one partition, one index per slice and every index in \<open>[0, num_partitions)\<close>.
\<close>

definition dynamic_partition :: "'a list \<Rightarrow> int list \<Rightarrow> nat \<Rightarrow> error + 'a list list" where
  "dynamic_partition data partitions num_partitions =
     (if num_partitions = 0 \<or> length data \<noteq> length partitions
         \<or> \<not> list_all (\<lambda>p. 0 \<le> p \<and> p < int num_partitions) partitions
      then Inl InvalidArgumentError
      else Inr (map (\<lambda>k. map fst (filter (\<lambda>dp. snd dp = int k) (zip data partitions)))
                  [0..<num_partitions]))"

definition dynamic_partition_rows :: "tensor \<Rightarrow> int list \<Rightarrow> nat \<Rightarrow> error + tensor list" where
  "dynamic_partition_rows X partitions num_partitions =
     (case dynamic_partition (rows X) partitions num_partitions of
        Inl e \<Rightarrow> Inl e
      | Inr ps \<Rightarrow> Inr (map (\<lambda>rs. \<lparr>ncols = ncols X, rows = rs\<rparr>) ps))"

text \<open>
  \<^verbatim>\<open>tf.dynamic_stitch(indices, data)\<close>: \<open>merged[indices[m][i]] = data[m][i]\<close>, later
  writes winning, in a tensor of \<open>max(indices) + 1\<close> rows. Every \<open>data[m]\<close> has one row per
  index of \<open>indices[m]\<close> and all have the same row shape. A row that no index names is
  left unspecified by TensorFlow; it is a zero row here.
\<close>

definition stitch_updates :: "nat list list \<Rightarrow> tensor list \<Rightarrow> (nat \<times> real list) list" where
  "stitch_updates indices data = concat (map (\<lambda>(js, d). zip js (rows d)) (zip indices data))"

definition dynamic_stitch :: "nat list list \<Rightarrow> tensor list \<Rightarrow> error + tensor" where
  "dynamic_stitch indices data =
     (if data = [] \<or> length indices \<noteq> length data
         \<or> \<not> list_all (\<lambda>(js, d). length js = length (rows d)) (zip indices data)
         \<or> \<not> list_all (\<lambda>d. ncols d = ncols (hd data)) data
      then Inl InvalidArgumentError
      else let c = ncols (hd data);
               n = (if concat indices = [] then 0 else Suc (fold max (concat indices) 0))
           in Inr \<lparr>ncols = c,
                   rows = fold (\<lambda>(i, r) merged. merged[i := r]) (stitch_updates indices data)
                            (replicate n (replicate c 0))\<rparr>)"

text \<open>\<^verbatim>\<open>tf.concat(ts, 1)\<close>: the tensors side by side; they must have the same number of rows.\<close>

definition concat_cols :: "tensor list \<Rightarrow> error + tensor" where
  "concat_cols ts =
     (if ts = [] then Inl ValueError
      else if \<not> list_all (\<lambda>t. nrows t = nrows (hd ts)) ts then Inl InvalidArgumentError
      else Inr \<lparr>ncols = sum_list (map ncols ts),
                 rows = map (\<lambda>i. concat (map (\<lambda>t. rows t ! i) ts)) [0..<nrows (hd ts)]\<rparr>)"

section \<open>The likelihood interface and the switched likelihood\<close>

text \<open>
  A likelihood object, as \<open>SwitchedLikelihood\<close> sees its children: the methods it looks up
  by name and calls. Any child behaviour is admitted, a failing one included.
\<close>

record likelihood =
  logp :: "tensor \<Rightarrow> tensor \<Rightarrow> error + tensor"
  predict_density :: "tensor \<Rightarrow> tensor \<Rightarrow> tensor \<Rightarrow> error + tensor"
  variational_expectations :: "tensor \<Rightarrow> tensor \<Rightarrow> tensor \<Rightarrow> error + tensor"
  predict_mean_and_var :: "tensor \<Rightarrow> tensor \<Rightarrow> error + (tensor \<times> tensor)"

text \<open>\<^verbatim>\<open>getattr(lik, func_name)\<close> followed by the call \<^verbatim>\<open>f(*args_i)\<close>.\<close>

definition getattr :: "likelihood \<Rightarrow> string \<Rightarrow> tensor list \<Rightarrow> error + tensor" where
  "getattr lik func_name args =
     (if func_name = ''logp'' then
        (case args of [F, Y] \<Rightarrow> logp lik F Y | _ \<Rightarrow> Inl TypeError)
      else if func_name = ''predict_density'' then
        (case args of [Fmu, Fvar, Y] \<Rightarrow> predict_density lik Fmu Fvar Y | _ \<Rightarrow> Inl TypeError)
      else if func_name = ''variational_expectations'' then
        (case args of [Fmu, Fvar, Y] \<Rightarrow> variational_expectations lik Fmu Fvar Y
         | _ \<Rightarrow> Inl TypeError)
      else Inl AttributeError)"

text \<open>
  \<open>SwitchedLikelihood._partition_and_stitch\<close>. \<open>args[-1]\<close> is \<open>Y\<close>; its last column is the
  index, cast to integers and stripped; every argument is partitioned by the index; child
  \<open>k\<close> is called on partition \<open>k\<close> of every argument; the results are stitched back at the
  partitioned positions \<open>0 .. size(ind) - 1\<close>.
\<close>

definition partition_and_stitch :: "likelihood list \<Rightarrow> tensor list \<Rightarrow> string \<Rightarrow> error + tensor" where
  "partition_and_stitch likelihood_list args func_name =
     (if args = [] then Inl IndexError
      else
        (let Y = last args in
         (case last_col Y of
            Inl e \<Rightarrow> Inl e
          | Inr indf \<Rightarrow>
              (let ind = map tf_cast_int indf;
                   args1 = butlast args @ [drop_last_col Y];
                   num_likelihoods = length likelihood_list
               in (case sequence_err
                          (map (\<lambda>X. dynamic_partition_rows X ind num_likelihoods) args1) of
                     Inl e \<Rightarrow> Inl e
                   | Inr parts \<Rightarrow>
                       (let args2 = map (\<lambda>k. map (\<lambda>ps. ps ! k) parts) [0..<num_likelihoods];
                            funcs = map (\<lambda>lik. getattr lik func_name) likelihood_list
                        in (case sequence_err (map (\<lambda>(f, args_i). f args_i) (zip funcs args2)) of
                              Inl e \<Rightarrow> Inl e
                            | Inr results \<Rightarrow>
                                (case dynamic_partition [0..<length ind] ind num_likelihoods of
                                   Inl e \<Rightarrow> Inl e
                                 | Inr partitions \<Rightarrow> dynamic_stitch partitions results))))))))"

definition SwitchedLikelihood_logp :: "likelihood list \<Rightarrow> tensor \<Rightarrow> tensor \<Rightarrow> error + tensor" where
  "SwitchedLikelihood_logp likelihood_list F Y =
     partition_and_stitch likelihood_list [F, Y] ''logp''"

definition SwitchedLikelihood_predict_density ::
  "likelihood list \<Rightarrow> tensor \<Rightarrow> tensor \<Rightarrow> tensor \<Rightarrow> error + tensor" where
  "SwitchedLikelihood_predict_density likelihood_list Fmu Fvar Y =
     partition_and_stitch likelihood_list [Fmu, Fvar, Y] ''predict_density''"

definition SwitchedLikelihood_variational_expectations ::
  "likelihood list \<Rightarrow> tensor \<Rightarrow> tensor \<Rightarrow> tensor \<Rightarrow> error + tensor" where
  "SwitchedLikelihood_variational_expectations likelihood_list Fmu Fvar Y =
     partition_and_stitch likelihood_list [Fmu, Fvar, Y] ''variational_expectations''"

text \<open>
  \<open>SwitchedLikelihood.predict_mean_and_var\<close>: every child on the whole batch; unpacking
  \<^verbatim>\<open>zip(*mvs)\<close> into two names fails on an empty list of children.
\<close>

definition SwitchedLikelihood_predict_mean_and_var ::
  "likelihood list \<Rightarrow> tensor \<Rightarrow> tensor \<Rightarrow> error + (tensor \<times> tensor)" where
  "SwitchedLikelihood_predict_mean_and_var likelihood_list Fmu Fvar =
     (case sequence_err (map (\<lambda>lik. predict_mean_and_var lik Fmu Fvar) likelihood_list) of
        Inl e \<Rightarrow> Inl e
      | Inr mvs \<Rightarrow>
          (if mvs = [] then Inl ValueError
           else
             (let mu_list = map fst mvs; var_list = map snd mvs in
              (case concat_cols mu_list of
                 Inl e \<Rightarrow> Inl e
               | Inr mu \<Rightarrow>
                   (case concat_cols var_list of
                      Inl e \<Rightarrow> Inl e
                    | Inr var \<Rightarrow> Inr (mu, var))))))"

section \<open>Element-wise tensor operations\<close>

text \<open>
  TensorFlow evaluates an element-wise expression operation by operation, broadcasting the
  operands: two dimensions are compatible when they are equal or one of them is 1. For
  element-wise operations this is the scalar expression applied at every position of the
  broadcast shape, which is how the expressions of the source are written below.
\<close>

definition broadcast_dim :: "nat \<Rightarrow> nat \<Rightarrow> error + nat" where
  "broadcast_dim a b =
     (if a = b then Inr a else if a = 1 then Inr b else if b = 1 then Inr a
      else Inl InvalidArgumentError)"

definition entry :: "tensor \<Rightarrow> nat \<Rightarrow> nat \<Rightarrow> real" where
  "entry A i j = rows A ! (if nrows A = 1 then 0 else i) ! (if ncols A = 1 then 0 else j)"

definition tabulate :: "nat \<Rightarrow> nat \<Rightarrow> (nat \<Rightarrow> nat \<Rightarrow> real) \<Rightarrow> tensor" where
  "tabulate n p f = \<lparr>ncols = p, rows = map (\<lambda>i. map (\<lambda>j. f i j) [0..<p]) [0..<n]\<rparr>"

definition elementwise1 :: "(real \<Rightarrow> real) \<Rightarrow> tensor \<Rightarrow> tensor" where
  "elementwise1 f A = \<lparr>ncols = ncols A, rows = map (map f) (rows A)\<rparr>"

definition elementwise2 :: "(real \<Rightarrow> real \<Rightarrow> real) \<Rightarrow> tensor \<Rightarrow> tensor \<Rightarrow> error + tensor" where
  "elementwise2 f A B =
     (case broadcast_dim (nrows A) (nrows B) of
        Inl e \<Rightarrow> Inl e
      | Inr n \<Rightarrow>
          (case broadcast_dim (ncols A) (ncols B) of
             Inl e \<Rightarrow> Inl e
           | Inr p \<Rightarrow> Inr (tabulate n p (\<lambda>i j. f (entry A i j) (entry B i j)))))"

definition broadcast_dim3 :: "nat \<Rightarrow> nat \<Rightarrow> nat \<Rightarrow> error + nat" where
  "broadcast_dim3 a b c =
     (case broadcast_dim a b of Inl e \<Rightarrow> Inl e | Inr ab \<Rightarrow> broadcast_dim ab c)"

definition elementwise3 ::
  "(real \<Rightarrow> real \<Rightarrow> real \<Rightarrow> real) \<Rightarrow> tensor \<Rightarrow> tensor \<Rightarrow> tensor \<Rightarrow> error + tensor" where
  "elementwise3 f A B C =
     (case broadcast_dim3 (nrows A) (nrows B) (nrows C) of
        Inl e \<Rightarrow> Inl e
      | Inr n \<Rightarrow>
          (case broadcast_dim3 (ncols A) (ncols B) (ncols C) of
             Inl e \<Rightarrow> Inl e
           | Inr p \<Rightarrow> Inr (tabulate n p (\<lambda>i j. f (entry A i j) (entry B i j) (entry C i j)))))"

section \<open>Primitives taken as given\<close>

text \<open>
  The tensor framework's \<open>erf\<close> and \<open>lgamma\<close> and the Gauss-Hermite table
  \<open>hermgauss n\<close> (the abscissas and the weights of the \<open>n\<close>-point rule) are not code of
  this module: they are parameters of the model. \<open>tf.exp\<close>, \<open>tf.log\<close>, \<open>tf.sqrt\<close> and
  \<open>tf.square\<close> are the real functions.
\<close>

record primitives =
  erf :: "real \<Rightarrow> real"
  lgamma :: "real \<Rightarrow> real"
  hermgauss :: "nat \<Rightarrow> real list \<times> real list"

subsection \<open>Log-densities\<close>

text \<open>
  Modelled from the spec: the module \<open>logdensities\<close> is not among the sources. The
  spec names its functions as given element-wise log-densities; their formulas are those
  of the distributions in the class docstrings (Gaussian, Poisson and Bernoulli).
\<close>

definition gaussian :: "real \<Rightarrow> real \<Rightarrow> real \<Rightarrow> real" where
  "gaussian x mu var = - (1 / 2) * (ln (2 * pi) + ln var + (mu - x)\<^sup>2 / var)"

definition poisson :: "primitives \<Rightarrow> real \<Rightarrow> real \<Rightarrow> real" where
  "poisson tf x lam = x * ln lam - lam - lgamma tf (x + 1)"

definition bernoulli :: "real \<Rightarrow> real \<Rightarrow> real" where
  "bernoulli x p = ln (if x = 1 then p else 1 - p)"

definition logdensities_gaussian :: "tensor \<Rightarrow> tensor \<Rightarrow> tensor \<Rightarrow> error + tensor" where
  "logdensities_gaussian x mu var = elementwise3 gaussian x mu var"

definition logdensities_poisson :: "primitives \<Rightarrow> tensor \<Rightarrow> tensor \<Rightarrow> error + tensor" where
  "logdensities_poisson tf x lam = elementwise2 (poisson tf) x lam"

definition logdensities_bernoulli :: "tensor \<Rightarrow> tensor \<Rightarrow> error + tensor" where
  "logdensities_bernoulli x p = elementwise2 bernoulli x p"

subsection \<open>Gauss-Hermite quadrature\<close>

text \<open>
  Modelled from the spec: the module \<open>quadrature\<close> is not among the sources. For every
  marginal \<open>N(Fmu, Fvar)\<close> the integrand is evaluated at the points
  \<open>Fmu + sqrt(2 Fvar) x\<^sub>i\<close> and the values are summed with the weights \<open>w\<^sub>i / sqrt \<pi>\<close>;
  in \<open>logspace\<close> mode the values are logarithms and are combined by log-sum-exp with the
  logarithms of the weights.
\<close>

definition gh_points :: "real list \<times> real list \<Rightarrow> real \<Rightarrow> real \<Rightarrow> (real \<times> real) list" where
  "gh_points gh mu var = map (\<lambda>(x, w). (mu + sqrt (2 * var) * x, w / sqrt pi)) (zip (fst gh) (snd gh))"

definition ndiagquad1 ::
  "real list \<times> real list \<Rightarrow> bool \<Rightarrow> (real \<Rightarrow> real) \<Rightarrow> real \<Rightarrow> real \<Rightarrow> real" where
  "ndiagquad1 gh logspace g mu var =
     (if logspace
      then ln (sum_list (map (\<lambda>(f, w). exp (g f + ln w)) (gh_points gh mu var)))
      else sum_list (map (\<lambda>(f, w). g f * w) (gh_points gh mu var)))"

definition ndiagquad ::
  "primitives \<Rightarrow> (real \<Rightarrow> real) \<Rightarrow> nat \<Rightarrow> tensor \<Rightarrow> tensor \<Rightarrow> error + tensor" where
  "ndiagquad tf func H Fmu Fvar =
     elementwise2 (\<lambda>mu var. ndiagquad1 (hermgauss tf H) False func mu var) Fmu Fvar"

definition ndiagquad_Y ::
  "primitives \<Rightarrow> (real \<Rightarrow> real \<Rightarrow> real) \<Rightarrow> nat \<Rightarrow> tensor \<Rightarrow> tensor \<Rightarrow> bool \<Rightarrow> tensor
     \<Rightarrow> error + tensor" where
  "ndiagquad_Y tf func H Fmu Fvar logspace Y =
     elementwise3 (\<lambda>mu var y. ndiagquad1 (hermgauss tf H) logspace (\<lambda>f. func f y) mu var)
       Fmu Fvar Y"

section \<open>The likelihood base class\<close>

text \<open>
  \<open>Likelihood.__init__\<close> sets \<open>num_gauss_hermite_points = 20\<close>. The generic methods
  integrate the subclass's \<open>logp\<close>, \<open>conditional_mean\<close> and \<open>conditional_variance\<close>,
  passed here as the element-wise functions they are.
\<close>

definition num_gauss_hermite_points :: nat where
  "num_gauss_hermite_points = 20"

definition Likelihood_predict_mean_and_var ::
  "primitives \<Rightarrow> (real \<Rightarrow> real) \<Rightarrow> (real \<Rightarrow> real) \<Rightarrow> tensor \<Rightarrow> tensor
     \<Rightarrow> error + (tensor \<times> tensor)" where
  "Likelihood_predict_mean_and_var tf conditional_mean conditional_variance Fmu Fvar =
     (let integrand2 = (\<lambda>X. conditional_variance X + (conditional_mean X)\<^sup>2) in
      case ndiagquad tf conditional_mean num_gauss_hermite_points Fmu Fvar of
        Inl e \<Rightarrow> Inl e
      | Inr E_y \<Rightarrow>
          (case ndiagquad tf integrand2 num_gauss_hermite_points Fmu Fvar of
             Inl e \<Rightarrow> Inl e
           | Inr E_y2 \<Rightarrow>
               (case elementwise2 (\<lambda>e2 e. e2 - e\<^sup>2) E_y2 E_y of
                  Inl e \<Rightarrow> Inl e
                | Inr V_y \<Rightarrow> Inr (E_y, V_y))))"

definition Likelihood_predict_density ::
  "primitives \<Rightarrow> (real \<Rightarrow> real \<Rightarrow> real) \<Rightarrow> tensor \<Rightarrow> tensor \<Rightarrow> tensor \<Rightarrow> error + tensor" where
  "Likelihood_predict_density tf logp1 Fmu Fvar Y =
     ndiagquad_Y tf logp1 num_gauss_hermite_points Fmu Fvar True Y"

definition Likelihood_variational_expectations ::
  "primitives \<Rightarrow> (real \<Rightarrow> real \<Rightarrow> real) \<Rightarrow> tensor \<Rightarrow> tensor \<Rightarrow> tensor \<Rightarrow> error + tensor" where
  "Likelihood_variational_expectations tf logp1 Fmu Fvar Y =
     ndiagquad_Y tf logp1 num_gauss_hermite_points Fmu Fvar False Y"

section \<open>Inverse links\<close>

text \<open>
  The source tests the inverse link by identity (\<^verbatim>\<open>self.invlink is tf.exp\<close>,
  \<^verbatim>\<open>self.invlink is inv_probit\<close>): the two named links are constructors of their own, and
  any other callable is \<open>Other_invlink\<close>, also one that computes the same function.
\<close>

datatype invlink = Tf_exp | Inv_probit | Other_invlink "real \<Rightarrow> real"

definition inv_probit :: "primitives \<Rightarrow> real \<Rightarrow> real" where
  "inv_probit tf x =
     (let jitter = 1 / 1000
      in (1 / 2) * (1 + erf tf (x / sqrt 2)) * (1 - 2 * jitter) + jitter)"

fun apply_invlink :: "primitives \<Rightarrow> invlink \<Rightarrow> real \<Rightarrow> real" where
  "apply_invlink tf Tf_exp x = exp x"
| "apply_invlink tf Inv_probit x = inv_probit tf x"
| "apply_invlink tf (Other_invlink g) x = g x"

text \<open>A scalar parameter, as a tensor that broadcasts against any other.\<close>

definition scalar :: "real \<Rightarrow> tensor" where
  "scalar c = \<lparr>ncols = 1, rows = [[c]]\<rparr>"

section \<open>Gaussian\<close>

definition Gaussian_logp :: "real \<Rightarrow> tensor \<Rightarrow> tensor \<Rightarrow> error + tensor" where
  "Gaussian_logp variance F Y = logdensities_gaussian Y F (scalar variance)"

definition Gaussian_conditional_mean :: "tensor \<Rightarrow> tensor" where
  "Gaussian_conditional_mean F = F"

definition Gaussian_conditional_variance :: "real \<Rightarrow> tensor \<Rightarrow> tensor" where
  "Gaussian_conditional_variance variance F = elementwise1 (\<lambda>_. variance) F"

definition Gaussian_predict_mean_and_var :: "real \<Rightarrow> tensor \<Rightarrow> tensor \<Rightarrow> tensor \<times> tensor" where
  "Gaussian_predict_mean_and_var variance Fmu Fvar =
     (Fmu, elementwise1 (\<lambda>v. v + variance) Fvar)"

definition Gaussian_predict_density :: "real \<Rightarrow> tensor \<Rightarrow> tensor \<Rightarrow> tensor \<Rightarrow> error + tensor" where
  "Gaussian_predict_density variance Fmu Fvar Y =
     logdensities_gaussian Y Fmu (elementwise1 (\<lambda>v. v + variance) Fvar)"

definition Gaussian_variational_expectations ::
  "real \<Rightarrow> tensor \<Rightarrow> tensor \<Rightarrow> tensor \<Rightarrow> error + tensor" where
  "Gaussian_variational_expectations variance Fmu Fvar Y =
     elementwise3
       (\<lambda>y mu v. - (1 / 2) * ln (2 * pi) - (1 / 2) * ln variance
                  - (1 / 2) * ((y - mu)\<^sup>2 + v) / variance)
       Y Fmu Fvar"

section \<open>Poisson\<close>

definition Poisson_logp1 :: "primitives \<Rightarrow> invlink \<Rightarrow> real \<Rightarrow> real \<Rightarrow> real \<Rightarrow> real" where
  "Poisson_logp1 tf invlink binsize f y = poisson tf y (apply_invlink tf invlink f * binsize)"

definition Poisson_logp ::
  "primitives \<Rightarrow> invlink \<Rightarrow> real \<Rightarrow> tensor \<Rightarrow> tensor \<Rightarrow> error + tensor" where
  "Poisson_logp tf invlink binsize F Y =
     logdensities_poisson tf Y (elementwise1 (\<lambda>f. apply_invlink tf invlink f * binsize) F)"

definition Poisson_conditional_variance1 :: "primitives \<Rightarrow> invlink \<Rightarrow> real \<Rightarrow> real \<Rightarrow> real" where
  "Poisson_conditional_variance1 tf invlink binsize f = apply_invlink tf invlink f * binsize"

definition Poisson_conditional_variance :: "primitives \<Rightarrow> invlink \<Rightarrow> real \<Rightarrow> tensor \<Rightarrow> tensor" where
  "Poisson_conditional_variance tf invlink binsize F =
     elementwise1 (Poisson_conditional_variance1 tf invlink binsize) F"

definition Poisson_conditional_mean1 :: "primitives \<Rightarrow> invlink \<Rightarrow> real \<Rightarrow> real \<Rightarrow> real" where
  "Poisson_conditional_mean1 tf invlink binsize f = apply_invlink tf invlink f * binsize"

definition Poisson_conditional_mean :: "primitives \<Rightarrow> invlink \<Rightarrow> real \<Rightarrow> tensor \<Rightarrow> tensor" where
  "Poisson_conditional_mean tf invlink binsize F =
     elementwise1 (Poisson_conditional_mean1 tf invlink binsize) F"

definition Poisson_variational_expectations ::
  "primitives \<Rightarrow> invlink \<Rightarrow> real \<Rightarrow> tensor \<Rightarrow> tensor \<Rightarrow> tensor \<Rightarrow> error + tensor" where
  "Poisson_variational_expectations tf invlink binsize Fmu Fvar Y =
     (case invlink of
        Tf_exp \<Rightarrow>
          elementwise3
            (\<lambda>y mu v. y * mu - exp (mu + v / 2) * binsize - lgamma tf (y + 1) + y * ln binsize)
            Y Fmu Fvar
      | _ \<Rightarrow> Likelihood_variational_expectations tf (Poisson_logp1 tf invlink binsize) Fmu Fvar Y)"

section \<open>Exponential, Student-t, Gamma and Beta\<close>

definition Exponential_conditional_mean :: "primitives \<Rightarrow> invlink \<Rightarrow> tensor \<Rightarrow> tensor" where
  "Exponential_conditional_mean tf invlink F = elementwise1 (apply_invlink tf invlink) F"

definition Exponential_conditional_variance :: "primitives \<Rightarrow> invlink \<Rightarrow> tensor \<Rightarrow> tensor" where
  "Exponential_conditional_variance tf invlink F =
     elementwise1 (\<lambda>f. (apply_invlink tf invlink f)\<^sup>2) F"

definition StudentT_conditional_mean :: "tensor \<Rightarrow> tensor" where
  "StudentT_conditional_mean F = F"

definition StudentT_conditional_variance :: "real \<Rightarrow> real \<Rightarrow> tensor \<Rightarrow> tensor" where
  "StudentT_conditional_variance scale df F =
     (let var = scale\<^sup>2 * (df / (df - 2)) in elementwise1 (\<lambda>_. var) F)"

definition Gamma_conditional_mean :: "primitives \<Rightarrow> invlink \<Rightarrow> real \<Rightarrow> tensor \<Rightarrow> tensor" where
  "Gamma_conditional_mean tf invlink shape F =
     elementwise1 (\<lambda>f. shape * apply_invlink tf invlink f) F"

definition Gamma_conditional_variance :: "primitives \<Rightarrow> invlink \<Rightarrow> real \<Rightarrow> tensor \<Rightarrow> tensor" where
  "Gamma_conditional_variance tf invlink shape F =
     elementwise1 (\<lambda>f. let scale = apply_invlink tf invlink f in shape * scale\<^sup>2) F"

definition Beta_conditional_mean :: "primitives \<Rightarrow> invlink \<Rightarrow> tensor \<Rightarrow> tensor" where
  "Beta_conditional_mean tf invlink F = elementwise1 (apply_invlink tf invlink) F"

definition Beta_conditional_variance :: "primitives \<Rightarrow> invlink \<Rightarrow> real \<Rightarrow> tensor \<Rightarrow> tensor" where
  "Beta_conditional_variance tf invlink scale F =
     elementwise1 (\<lambda>f. let mean = apply_invlink tf invlink f in (mean - mean\<^sup>2) / (scale + 1)) F"

section \<open>Bernoulli\<close>

definition Bernoulli_logp :: "primitives \<Rightarrow> invlink \<Rightarrow> tensor \<Rightarrow> tensor \<Rightarrow> error + tensor" where
  "Bernoulli_logp tf invlink F Y =
     logdensities_bernoulli Y (elementwise1 (apply_invlink tf invlink) F)"

definition Bernoulli_logp1 :: "primitives \<Rightarrow> invlink \<Rightarrow> real \<Rightarrow> real \<Rightarrow> real" where
  "Bernoulli_logp1 tf invlink f y = bernoulli y (apply_invlink tf invlink f)"

definition Bernoulli_conditional_mean1 :: "primitives \<Rightarrow> invlink \<Rightarrow> real \<Rightarrow> real" where
  "Bernoulli_conditional_mean1 tf invlink f = apply_invlink tf invlink f"

definition Bernoulli_conditional_mean :: "primitives \<Rightarrow> invlink \<Rightarrow> tensor \<Rightarrow> tensor" where
  "Bernoulli_conditional_mean tf invlink F = elementwise1 (Bernoulli_conditional_mean1 tf invlink) F"

definition Bernoulli_conditional_variance1 :: "primitives \<Rightarrow> invlink \<Rightarrow> real \<Rightarrow> real" where
  "Bernoulli_conditional_variance1 tf invlink f =
     (let p = Bernoulli_conditional_mean1 tf invlink f in p - p\<^sup>2)"

definition Bernoulli_conditional_variance :: "primitives \<Rightarrow> invlink \<Rightarrow> tensor \<Rightarrow> tensor" where
  "Bernoulli_conditional_variance tf invlink F =
     elementwise1 (Bernoulli_conditional_variance1 tf invlink) F"

definition Bernoulli_predict_mean_and_var ::
  "primitives \<Rightarrow> invlink \<Rightarrow> tensor \<Rightarrow> tensor \<Rightarrow> error + (tensor \<times> tensor)" where
  "Bernoulli_predict_mean_and_var tf invlink Fmu Fvar =
     (case invlink of
        Inv_probit \<Rightarrow>
          (case elementwise2 (\<lambda>mu v. inv_probit tf (mu / sqrt (1 + v))) Fmu Fvar of
             Inl e \<Rightarrow> Inl e
           | Inr p \<Rightarrow> Inr (p, elementwise1 (\<lambda>p. p - p\<^sup>2) p))
      | _ \<Rightarrow>
          Likelihood_predict_mean_and_var tf (Bernoulli_conditional_mean1 tf invlink)
            (Bernoulli_conditional_variance1 tf invlink) Fmu Fvar)"

definition Bernoulli_predict_density ::
  "primitives \<Rightarrow> invlink \<Rightarrow> tensor \<Rightarrow> tensor \<Rightarrow> tensor \<Rightarrow> error + tensor" where
  "Bernoulli_predict_density tf invlink Fmu Fvar Y =
     (case Bernoulli_predict_mean_and_var tf invlink Fmu Fvar of
        Inl e \<Rightarrow> Inl e
      | Inr mv \<Rightarrow> let p = fst mv in logdensities_bernoulli Y p)"

section \<open>Ordinal\<close>

text \<open>
  The scaled bin edges are extended by \<open>+inf\<close> on the left list and \<open>-inf\<close> on the right
  one. In floating point \<open>inf - x = inf\<close> and \<open>erf(\<plusminus>inf) = \<plusminus>1\<close>, so \<open>inv_probit\<close> of
  an infinite bound is \<open>1 - jitter\<close> or \<open>jitter\<close>; a bound is a value of its own type.
\<close>

datatype bound = Neg_inf | Finite real | Pos_inf

definition inv_probit_bound :: "primitives \<Rightarrow> bound \<Rightarrow> real \<Rightarrow> real" where
  "inv_probit_bound tf b z =
     (case b of
        Neg_inf \<Rightarrow> 1 / 1000
      | Finite a \<Rightarrow> inv_probit tf (a - z)
      | Pos_inf \<Rightarrow> 1 - 1 / 1000)"

definition scaled_bins_left :: "real list \<Rightarrow> real \<Rightarrow> bound list" where
  "scaled_bins_left bin_edges sigma = map (\<lambda>a. Finite (a / sigma)) bin_edges @ [Pos_inf]"

definition scaled_bins_right :: "real list \<Rightarrow> real \<Rightarrow> bound list" where
  "scaled_bins_right bin_edges sigma = [Neg_inf] @ map (\<lambda>a. Finite (a / sigma)) bin_edges"

text \<open>One row of \<open>Ordinal._make_phi\<close>: the row of the flattened entry \<open>f\<close> of \<open>F\<close>.\<close>

definition Ordinal_make_phi1 :: "primitives \<Rightarrow> real list \<Rightarrow> real \<Rightarrow> real \<Rightarrow> real list" where
  "Ordinal_make_phi1 tf bin_edges sigma f =
     map (\<lambda>(l, r). inv_probit_bound tf l (f / sigma) - inv_probit_bound tf r (f / sigma))
       (zip (scaled_bins_left bin_edges sigma) (scaled_bins_right bin_edges sigma))"

definition Ordinal_conditional_mean1 :: "primitives \<Rightarrow> real list \<Rightarrow> real \<Rightarrow> real \<Rightarrow> real" where
  "Ordinal_conditional_mean1 tf bin_edges sigma f =
     (let phi = Ordinal_make_phi1 tf bin_edges sigma f;
          num_bins = length bin_edges + 1;
          Ys = map real [0..<num_bins]
      in sum_list (map (\<lambda>(p, y). p * y) (zip phi Ys)))"

definition Ordinal_conditional_mean :: "primitives \<Rightarrow> real list \<Rightarrow> real \<Rightarrow> tensor \<Rightarrow> tensor" where
  "Ordinal_conditional_mean tf bin_edges sigma F =
     elementwise1 (Ordinal_conditional_mean1 tf bin_edges sigma) F"

definition Ordinal_conditional_variance1 :: "primitives \<Rightarrow> real list \<Rightarrow> real \<Rightarrow> real \<Rightarrow> real" where
  "Ordinal_conditional_variance1 tf bin_edges sigma f =
     (let phi = Ordinal_make_phi1 tf bin_edges sigma f;
          num_bins = length bin_edges + 1;
          Ys = map real [0..<num_bins];
          E_y = sum_list (map (\<lambda>(p, y). p * y) (zip phi Ys));
          E_y2 = sum_list (map (\<lambda>(p, y). p * y\<^sup>2) (zip phi Ys))
      in E_y2 - E_y\<^sup>2)"

definition Ordinal_conditional_variance :: "primitives \<Rightarrow> real list \<Rightarrow> real \<Rightarrow> tensor \<Rightarrow> tensor" where
  "Ordinal_conditional_variance tf bin_edges sigma F =
     elementwise1 (Ordinal_conditional_variance1 tf bin_edges sigma) F"

section \<open>RobustMax\<close>

text \<open>
  \<^verbatim>\<open>tf.argmax(F, 1)\<close>: for every row the first position of its greatest entry; the
  reduction fails on a tensor with no column. \<^verbatim>\<open>tf.one_hot(i, depth, on, off)\<close>: a row of
  \<open>depth\<close> entries, \<open>on\<close> at position \<open>i\<close> and \<open>off\<close> elsewhere (everywhere, when \<open>i\<close> is
  not below \<open>depth\<close>).
\<close>

definition argmax :: "real list \<Rightarrow> nat" where
  "argmax xs = length (takeWhile (\<lambda>x. x \<noteq> fold max xs (hd xs)) xs)"

definition tf_argmax :: "tensor \<Rightarrow> error + nat list" where
  "tf_argmax F = (if ncols F = 0 then Inl InvalidArgumentError else Inr (map argmax (rows F)))"

definition one_hot :: "nat \<Rightarrow> nat \<Rightarrow> real \<Rightarrow> real \<Rightarrow> real list" where
  "one_hot i depth on_value off_value =
     map (\<lambda>c. if c = i then on_value else off_value) [0..<depth]"

record robustmax =
  epsilon :: real
  num_classes :: nat

text \<open>\<open>RobustMax.__init__\<close>, with its default \<open>epsilon = 1e-3\<close>.\<close>

definition RobustMax_init :: "nat \<Rightarrow> real option \<Rightarrow> robustmax" where
  "RobustMax_init n eps =
     \<lparr>epsilon = (case eps of None \<Rightarrow> 1 / 1000 | Some e \<Rightarrow> e), num_classes = n\<rparr>"

text \<open>
  \<open>RobustMax._eps_K1\<close>, computed from the current \<open>epsilon\<close> at every call. For one class
  the source divides by zero (an infinity in floating point, 0 in HOL).
\<close>

definition eps_K1 :: "robustmax \<Rightarrow> real" where
  "eps_K1 self = epsilon self / (real (num_classes self) - 1)"

definition RobustMax_call :: "robustmax \<Rightarrow> tensor \<Rightarrow> error + tensor" where
  "RobustMax_call self F =
     (case tf_argmax F of
        Inl e \<Rightarrow> Inl e
      | Inr i \<Rightarrow>
          Inr \<lparr>ncols = num_classes self,
               rows = map (\<lambda>a. one_hot a (num_classes self) (1 - epsilon self) (eps_K1 self)) i\<rparr>)"

text \<open>
  \<open>RobustMax.prob_is_largest\<close> for one data point: the label \<open>y\<close>, the rows \<open>mu\<close> and
  \<open>var\<close> of the latent mean and variance, the Gauss-Hermite abscissas and weights.
\<close>

definition prob_is_largest1 ::
  "primitives \<Rightarrow> robustmax \<Rightarrow> int \<Rightarrow> real list \<Rightarrow> real list \<Rightarrow> real list \<Rightarrow> real list \<Rightarrow> real" where
  "prob_is_largest1 tf self y mu var gh_x gh_w =
     (let K = num_classes self;
          oh_on = map (\<lambda>c. if int c = y then 1 else 0) [0..<K];
          oh_off = map (\<lambda>c. if int c = y then 0 else 1) [0..<K];
          mu_selected = sum_list (map (\<lambda>c. oh_on ! c * mu ! c) [0..<K]);
          var_selected = sum_list (map (\<lambda>c. oh_on ! c * var ! c) [0..<K]);
          X = map (\<lambda>x. mu_selected + x * sqrt (max (2 * var_selected) (1 / 10 ^ 10))) gh_x;
          cdfs = (\<lambda>c h.
             let dist = (X ! h - mu ! c) / sqrt (max (var ! c) (1 / 10 ^ 10));
                 cdf = (1 / 2) * (1 + erf tf (dist / sqrt 2))
             in (cdf * (1 - 2 / 10 ^ 4) + 1 / 10 ^ 4) * oh_off ! c + oh_on ! c)
      in sum_list (map (\<lambda>h. prod_list (map (\<lambda>c. cdfs c h) [0..<K]) * (gh_w ! h / sqrt pi))
                     [0..<length gh_x]))"

text \<open>
  The tensor form, for the shapes of its callers: \<open>Y\<close> of shape \<open>[N, 1]\<close>, \<open>mu\<close> and \<open>var\<close>
  of shape \<open>[N, K]\<close>, as many weights as abscissas. Other shapes are reported as a shape
  failure (TensorFlow would broadcast some of them; nothing below depends on that).
\<close>

definition prob_is_largest ::
  "primitives \<Rightarrow> robustmax \<Rightarrow> tensor \<Rightarrow> tensor \<Rightarrow> tensor \<Rightarrow> real list \<Rightarrow> real list
     \<Rightarrow> error + tensor" where
  "prob_is_largest tf self Y mu var gh_x gh_w =
     (if ncols Y = 1 \<and> nrows Y = nrows mu \<and> nrows var = nrows mu
         \<and> ncols mu = num_classes self \<and> ncols var = num_classes self
         \<and> length gh_w = length gh_x
      then Inr \<lparr>ncols = 1,
                 rows = map (\<lambda>n. [prob_is_largest1 tf self (tf_cast_int (hd (rows Y ! n)))
                                     (rows mu ! n) (rows var ! n) gh_x gh_w])
                          [0..<nrows mu]\<rparr>
      else Inl InvalidArgumentError)"

section \<open>MultiClass\<close>

text \<open>
  The inverse link of a \<open>MultiClass\<close> is an object: a \<open>RobustMax\<close> instance or anything
  else (\<open>isinstance(invlink, RobustMax)\<close> tells them apart). The constructor refuses the
  second kind, but the attribute can be assigned afterwards, and every method tests it again.
\<close>

datatype multiclass_invlink = RobustMax robustmax | Not_RobustMax "tensor \<Rightarrow> error + tensor"

record multiclass =
  mc_num_classes :: nat
  mc_invlink :: multiclass_invlink

definition MultiClass_init :: "nat \<Rightarrow> multiclass_invlink option \<Rightarrow> error + multiclass" where
  "MultiClass_init n invlink =
     (case invlink of
        None \<Rightarrow> Inr \<lparr>mc_num_classes = n, mc_invlink = RobustMax (RobustMax_init n None)\<rparr>
      | Some (RobustMax r) \<Rightarrow> Inr \<lparr>mc_num_classes = n, mc_invlink = RobustMax r\<rparr>
      | Some (Not_RobustMax g) \<Rightarrow> Inl NotImplementedError)"

text \<open>
  \<open>MultiClass.logp\<close>: \<open>hits\<close> compares the argmax column with the labels, \<open>yes\<close> and \<open>no\<close>
  have the shape of \<open>Y\<close>, and \<^verbatim>\<open>tf.where\<close> needs \<open>hits\<close> to have that shape too.
\<close>

definition MultiClass_logp :: "multiclass \<Rightarrow> tensor \<Rightarrow> tensor \<Rightarrow> error + tensor" where
  "MultiClass_logp self F Y =
     (case mc_invlink self of
        RobustMax r \<Rightarrow>
          (case tf_argmax F of
             Inl e \<Rightarrow> Inl e
           | Inr i \<Rightarrow>
               (case elementwise2
                       (\<lambda>a y. if a = real_of_int (tf_cast_int y) then 1 - epsilon r else eps_K1 r)
                       \<lparr>ncols = 1, rows = map (\<lambda>a. [real a]) i\<rparr> Y of
                  Inl e \<Rightarrow> Inl e
                | Inr p \<Rightarrow>
                    if nrows p = nrows Y then Inr (elementwise1 ln p)
                    else Inl InvalidArgumentError))
      | Not_RobustMax g \<Rightarrow> Inl NotImplementedError)"

definition MultiClass_variational_expectations ::
  "primitives \<Rightarrow> multiclass \<Rightarrow> tensor \<Rightarrow> tensor \<Rightarrow> tensor \<Rightarrow> error + tensor" where
  "MultiClass_variational_expectations tf self Fmu Fvar Y =
     (case mc_invlink self of
        RobustMax r \<Rightarrow>
          (let gh = hermgauss tf num_gauss_hermite_points in
           case prob_is_largest tf r Y Fmu Fvar (fst gh) (snd gh) of
             Inl e \<Rightarrow> Inl e
           | Inr p \<Rightarrow>
               Inr (elementwise1 (\<lambda>p. p * ln (1 - epsilon r) + (1 - p) * ln (eps_K1 r)) p))
      | Not_RobustMax g \<Rightarrow> Inl NotImplementedError)"

definition MultiClass_predict_non_logged_density ::
  "primitives \<Rightarrow> multiclass \<Rightarrow> tensor \<Rightarrow> tensor \<Rightarrow> tensor \<Rightarrow> error + tensor" where
  "MultiClass_predict_non_logged_density tf self Fmu Fvar Y =
     (case mc_invlink self of
        RobustMax r \<Rightarrow>
          (let gh = hermgauss tf num_gauss_hermite_points in
           case prob_is_largest tf r Y Fmu Fvar (fst gh) (snd gh) of
             Inl e \<Rightarrow> Inl e
           | Inr p \<Rightarrow> Inr (elementwise1 (\<lambda>p. p * (1 - epsilon r) + (1 - p) * eps_K1 r) p))
      | Not_RobustMax g \<Rightarrow> Inl NotImplementedError)"

text \<open>
  \<open>MultiClass.predict_mean_and_var\<close>: the density of every possible label, one column
  each (\<^verbatim>\<open>tf.stack\<close> of no tensor fails).
\<close>

definition MultiClass_predict_mean_and_var ::
  "primitives \<Rightarrow> multiclass \<Rightarrow> tensor \<Rightarrow> tensor \<Rightarrow> error + (tensor \<times> tensor)" where
  "MultiClass_predict_mean_and_var tf self Fmu Fvar =
     (case mc_invlink self of
        RobustMax r \<Rightarrow>
          (let possible_outputs =
                 map (\<lambda>i. \<lparr>ncols = 1, rows = replicate (nrows Fmu) [real i]\<rparr>)
                   [0..<mc_num_classes self]
           in case sequence_err
                     (map (\<lambda>po. MultiClass_predict_non_logged_density tf self Fmu Fvar po)
                        possible_outputs) of
                Inl e \<Rightarrow> Inl e
              | Inr ps \<Rightarrow>
                  if ps = [] then Inl ValueError
                  else
                    (let ps1 = \<lparr>ncols = length ps,
                                 rows = map (\<lambda>n. map (\<lambda>p. hd (rows p ! n)) ps) [0..<nrows Fmu]\<rparr>
                     in Inr (ps1, elementwise1 (\<lambda>p. p - p\<^sup>2) ps1)))
      | Not_RobustMax g \<Rightarrow> Inl NotImplementedError)"

definition MultiClass_predict_density ::
  "primitives \<Rightarrow> multiclass \<Rightarrow> tensor \<Rightarrow> tensor \<Rightarrow> tensor \<Rightarrow> error + tensor" where
  "MultiClass_predict_density tf self Fmu Fvar Y =
     (case MultiClass_predict_non_logged_density tf self Fmu Fvar Y of
        Inl e \<Rightarrow> Inl e
      | Inr den \<Rightarrow> Inr (elementwise1 ln den))"

definition MultiClass_conditional_mean :: "multiclass \<Rightarrow> tensor \<Rightarrow> error + tensor" where
  "MultiClass_conditional_mean self F =
     (case mc_invlink self of RobustMax r \<Rightarrow> RobustMax_call r F | Not_RobustMax g \<Rightarrow> g F)"

definition MultiClass_conditional_variance :: "multiclass \<Rightarrow> tensor \<Rightarrow> error + tensor" where
  "MultiClass_conditional_variance self F =
     (case MultiClass_conditional_mean self F of
        Inl e \<Rightarrow> Inl e
      | Inr p \<Rightarrow> Inr (elementwise1 (\<lambda>p. p - p\<^sup>2) p))"

section \<open>SoftMax\<close>

definition softmax :: "real list \<Rightarrow> real list" where
  "softmax f = map (\<lambda>x. exp x / sum_list (map exp f)) f"

definition SoftMax_conditional_mean :: "tensor \<Rightarrow> tensor" where
  "SoftMax_conditional_mean F = \<lparr>ncols = ncols F, rows = map softmax (rows F)\<rparr>"

definition SoftMax_conditional_variance :: "tensor \<Rightarrow> tensor" where
  "SoftMax_conditional_variance F =
     (let p = SoftMax_conditional_mean F in elementwise1 (\<lambda>p. p - p\<^sup>2) p)"

text \<open>
  \<^verbatim>\<open>tf.nn.sparse_softmax_cross_entropy_with_logits(logits=F, labels=Y[:, 0])\<close>: one label
  per row of logits, every label a class index; the value is minus the logarithm of the
  softmax probability of the label. The labels are an integer tensor (element types are
  not modelled: an entry is read as the integer it truncates to).
\<close>

definition sparse_softmax_cross_entropy_with_logits ::
  "tensor \<Rightarrow> real list \<Rightarrow> error + real list" where
  "sparse_softmax_cross_entropy_with_logits logits labels =
     (if length labels \<noteq> nrows logits
         \<or> \<not> list_all (\<lambda>l. 0 \<le> tf_cast_int l \<and> tf_cast_int l < int (ncols logits)) labels
      then Inl InvalidArgumentError
      else Inr (map (\<lambda>(f, l). - ln (softmax f ! nat (tf_cast_int l))) (zip (rows logits) labels)))"

text \<open>
  \<open>SoftMax.logp\<close>: the two \<^verbatim>\<open>tf.assert_equal\<close> are control dependencies of the
  cross-entropy, so they are checked first; a failed assertion is a value of its own.
\<close>

datatype softmax_error = Assert_equal_failed | Tf_error error

definition SoftMax_logp :: "nat \<Rightarrow> tensor \<Rightarrow> tensor \<Rightarrow> softmax_error + tensor" where
  "SoftMax_logp self_num_classes F Y =
     (if ncols Y \<noteq> 1 then Inl Assert_equal_failed
      else if ncols F \<noteq> self_num_classes then Inl Assert_equal_failed
      else
        (case sparse_softmax_cross_entropy_with_logits F (map hd (rows Y)) of
           Inl e \<Rightarrow> Inl (Tf_error e)
         | Inr ce \<Rightarrow> Inr \<lparr>ncols = 1, rows = map (\<lambda>x. [- x]) ce\<rparr>))"

section \<open>Likelihood objects\<close>

text \<open>
  The methods of a Gaussian, a Poisson and a Bernoulli instance, as the object that a
  \<open>SwitchedLikelihood\<close> holds: a method that the class does not define is the one of the
  base class.
\<close>

definition Gaussian_object :: "real \<Rightarrow> likelihood" where
  "Gaussian_object variance =
     \<lparr>logp = Gaussian_logp variance,
      predict_density = Gaussian_predict_density variance,
      variational_expectations = Gaussian_variational_expectations variance,
      predict_mean_and_var = (\<lambda>Fmu Fvar. Inr (Gaussian_predict_mean_and_var variance Fmu Fvar))\<rparr>"

definition Poisson_object :: "primitives \<Rightarrow> invlink \<Rightarrow> real \<Rightarrow> likelihood" where
  "Poisson_object tf invlink binsize =
     \<lparr>logp = Poisson_logp tf invlink binsize,
      predict_density = Likelihood_predict_density tf (Poisson_logp1 tf invlink binsize),
      variational_expectations = Poisson_variational_expectations tf invlink binsize,
      predict_mean_and_var =
        Likelihood_predict_mean_and_var tf (Poisson_conditional_mean1 tf invlink binsize)
          (Poisson_conditional_variance1 tf invlink binsize)\<rparr>"

definition Bernoulli_object :: "primitives \<Rightarrow> invlink \<Rightarrow> likelihood" where
  "Bernoulli_object tf invlink =
     \<lparr>logp = Bernoulli_logp tf invlink,
      predict_density = Bernoulli_predict_density tf invlink,
      variational_expectations = Likelihood_variational_expectations tf (Bernoulli_logp1 tf invlink),
      predict_mean_and_var = Bernoulli_predict_mean_and_var tf invlink\<rparr>"

section \<open>The concrete likelihoods and their conditional variance\<close>

text \<open>
  The concrete variants with their hyperparameters, and \<open>conditional_variance\<close> resolved
  to the method of the variant's class (\<open>GaussianMC\<close> inherits the one of \<open>Gaussian\<close>).
\<close>

datatype concrete_likelihood =
    Gaussian real
  | Poisson invlink real
  | Exponential invlink
  | StudentT real real
  | Bernoulli invlink
  | Gamma invlink real
  | Beta invlink real
  | Ordinal "real list" real
  | MultiClass multiclass
  | GaussianMC real
  | SoftMax nat

fun conditional_variance :: "primitives \<Rightarrow> concrete_likelihood \<Rightarrow> tensor \<Rightarrow> error + tensor" where
  "conditional_variance tf (Gaussian variance) F = Inr (Gaussian_conditional_variance variance F)"
| "conditional_variance tf (Poisson invlink binsize) F =
     Inr (Poisson_conditional_variance tf invlink binsize F)"
| "conditional_variance tf (Exponential invlink) F =
     Inr (Exponential_conditional_variance tf invlink F)"
| "conditional_variance tf (StudentT scale df) F = Inr (StudentT_conditional_variance scale df F)"
| "conditional_variance tf (Bernoulli invlink) F = Inr (Bernoulli_conditional_variance tf invlink F)"
| "conditional_variance tf (Gamma invlink shape) F =
     Inr (Gamma_conditional_variance tf invlink shape F)"
| "conditional_variance tf (Beta invlink scale) F =
     Inr (Beta_conditional_variance tf invlink scale F)"
| "conditional_variance tf (Ordinal bin_edges sigma) F =
     Inr (Ordinal_conditional_variance tf bin_edges sigma F)"
| "conditional_variance tf (MultiClass self) F = MultiClass_conditional_variance self F"
| "conditional_variance tf (GaussianMC variance) F =
     Inr (Gaussian_conditional_variance variance F)"
| "conditional_variance tf (SoftMax self_num_classes) F = Inr (SoftMax_conditional_variance F)"

subsection \<open>Reference notions for the row-wise dispatch\<close>

text \<open>
  What the switched likelihood is meant to compute, said without partition and stitch:
  the index of a row is the integer cast of the last entry of \<open>Y\<close>; child \<open>k\<close> owns
  the rows whose index is \<open>k\<close>, in input order; the child is called on its own rows of
  every argument, \<open>Y\<close> without its index column; row \<open>i\<close> stands in its child's batch
  after the earlier rows of the same index.
\<close>

definition switch_index :: "tensor \<Rightarrow> int list" where
  "switch_index Y = map (\<lambda>r. tf_cast_int (last r)) (rows Y)"

definition rows_of_child :: "int list \<Rightarrow> nat \<Rightarrow> nat list" where
  "rows_of_child ind k = filter (\<lambda>j. ind ! j = int k) [0..<length ind]"

definition select_rows :: "tensor \<Rightarrow> nat list \<Rightarrow> tensor" where
  "select_rows X js = \<lparr>ncols = ncols X, rows = map (nth (rows X)) js\<rparr>"

definition child_logp :: "likelihood list \<Rightarrow> tensor \<Rightarrow> tensor \<Rightarrow> nat \<Rightarrow> error + tensor" where
  "child_logp likelihood_list F Y k =
     (let js = rows_of_child (switch_index Y) k
      in logp (likelihood_list ! k) (select_rows F js) (select_rows (drop_last_col Y) js))"

definition position_in_child :: "int list \<Rightarrow> nat \<Rightarrow> nat" where
  "position_in_child ind i = length (filter (\<lambda>j. ind ! j = ind ! i) [0..<i])"

definition index_column_ok :: "nat \<Rightarrow> tensor \<Rightarrow> bool" where
  "index_column_ok num_likelihoods Y =
     list_all (\<lambda>r. last r \<in> real ` {0..<num_likelihoods}) (rows Y)"

definition interleaved_F :: tensor where
  "interleaved_F = \<lparr>ncols = 1, rows = [[1], [2], [3], [4], [5]]\<rparr>"

definition interleaved_Y :: tensor where
  "interleaved_Y = \<lparr>ncols = 2, rows = [[1, 0], [1, 1], [1, 0], [1, 1], [1, 0]]\<rparr>"

subsection \<open>Reference densities\<close>

text \<open>
  The densities that the claims name, written as the textbook formulas: the normal
  density of mean \<open>mean\<close> and variance \<open>var\<close>, and the Bernoulli probability mass of a
  binary outcome.
\<close>

definition normal_density :: "real \<Rightarrow> real \<Rightarrow> real \<Rightarrow> real" where
  "normal_density mean var y = exp (- (y - mean)\<^sup>2 / (2 * var)) / sqrt (2 * pi * var)"

definition bernoulli_mass :: "real \<Rightarrow> real \<Rightarrow> real" where
  "bernoulli_mass p y = (if y = 1 then p else if y = 0 then 1 - p else 0)"

definition same_shape :: "tensor \<Rightarrow> tensor \<Rightarrow> bool" where
  "same_shape A B = (nrows A = nrows B \<and> ncols A = ncols B)"

subsection \<open>Valid hyperparameters and latent inputs\<close>

text \<open>
  The domains in which the conditional variance is meant: what the parameter transforms
  and the docstrings of the source ask of each variant. The variance of a Gaussian and
  the shape of a Gamma are positive; a Poisson has a positive bin size and a link into the
  non-negative rates; the variance of a Student-t needs more than two degrees of freedom;
  a Bernoulli and a Beta need a link into \<open>[0, 1]\<close>; the bin edges of an Ordinal are
  ordered and its \<open>sigma\<close> is positive; a RobustMax has an error rate strictly between 0
  and 1 and at least two classes. Of the primitive \<open>erf\<close> its range and its monotonicity
  are used.
\<close>

definition erf_ok :: "primitives \<Rightarrow> bool" where
  "erf_ok tf = ((\<forall>x. - 1 \<le> erf tf x \<and> erf tf x \<le> 1) \<and> (\<forall>x y. x \<le> y \<longrightarrow> erf tf x \<le> erf tf y))"

definition nonneg_link :: "primitives \<Rightarrow> invlink \<Rightarrow> bool" where
  "nonneg_link tf invlink = (\<forall>x. 0 \<le> apply_invlink tf invlink x)"

definition unit_interval_link :: "primitives \<Rightarrow> invlink \<Rightarrow> bool" where
  "unit_interval_link tf invlink =
     (\<forall>x. 0 \<le> apply_invlink tf invlink x \<and> apply_invlink tf invlink x \<le> 1)"

fun valid_hyperparameters :: "primitives \<Rightarrow> concrete_likelihood \<Rightarrow> bool" where
  "valid_hyperparameters tf (Gaussian variance) = (0 < variance)"
| "valid_hyperparameters tf (Poisson invlink binsize) = (0 < binsize \<and> nonneg_link tf invlink)"
| "valid_hyperparameters tf (Exponential invlink) = True"
| "valid_hyperparameters tf (StudentT scale df) = (2 < df)"
| "valid_hyperparameters tf (Bernoulli invlink) = unit_interval_link tf invlink"
| "valid_hyperparameters tf (Gamma invlink shape) = (0 < shape)"
| "valid_hyperparameters tf (Beta invlink scale) = (0 < scale \<and> unit_interval_link tf invlink)"
| "valid_hyperparameters tf (Ordinal bin_edges sigma) =
     (0 < sigma \<and> sorted bin_edges \<and> erf_ok tf)"
| "valid_hyperparameters tf (MultiClass self) =
     (case mc_invlink self of
        RobustMax r \<Rightarrow> 0 < epsilon r \<and> epsilon r < 1 \<and> 2 \<le> num_classes r
      | Not_RobustMax g \<Rightarrow> False)"
| "valid_hyperparameters tf (GaussianMC variance) = (0 < variance)"
| "valid_hyperparameters tf (SoftMax self_num_classes) = True"

text \<open>A latent input of a multi-class likelihood has at least one score per row.\<close>

fun valid_latent :: "concrete_likelihood \<Rightarrow> tensor \<Rightarrow> bool" where
  "valid_latent (MultiClass self) F = (0 < ncols F)"
| "valid_latent _ F = True"

definition nonneg_tensor :: "tensor \<Rightarrow> bool" where
  "nonneg_tensor V = list_all (list_all (\<lambda>x. 0 \<le> x)) (rows V)"

text \<open>
  Stand-ins for the primitives, for closed instances only: an odd, increasing function
  into \<open>(-1, 1)\<close> in the place of \<open>erf\<close>, and for every \<open>n\<close> the rule of \<open>n\<close> equal
  weights at the abscissa 0 (normalised and symmetric, as a Gauss-Hermite rule is).
\<close>

definition sample_primitives :: primitives where
  "sample_primitives =
     \<lparr>erf = (\<lambda>x. x / (1 + \<bar>x\<bar>)),
      lgamma = (\<lambda>x. 0),
      hermgauss = (\<lambda>n. (replicate n 0, replicate n (sqrt pi / real n)))\<rparr>"

subsection \<open>Reference notions for the quadrature error\<close>

text \<open>
  A Gauss-Hermite rule integrates polynomials of low degree exactly; two instances are
  used: the normalised weights \<open>w\<^sub>i / sqrt \<pi>\<close> sum to 1, and the weighted abscissas sum to
  0. The error of a rule on an integrand is the distance between its value and the
  integral; for \<open>exp\<close> the integral against \<open>N(mu, var)\<close> is \<open>exp (mu + var / 2)\<close>.
\<close>

definition exact_up_to_degree_1 :: "real list \<times> real list \<Rightarrow> bool" where
  "exact_up_to_degree_1 gh =
     (sum_list (map (\<lambda>(x, w). w / sqrt pi) (zip (fst gh) (snd gh))) = 1
      \<and> sum_list (map (\<lambda>(x, w). x * (w / sqrt pi)) (zip (fst gh) (snd gh))) = 0)"

definition quadrature_error ::
  "real list \<times> real list \<Rightarrow> (real \<Rightarrow> real) \<Rightarrow> real \<Rightarrow> real \<Rightarrow> real \<Rightarrow> real" where
  "quadrature_error gh g mu var integral = \<bar>ndiagquad1 gh False g mu var - integral\<bar>"

section \<open>Partition and stitch\<close>

lemma zip_filter_nth:
  "length xs = length ps \<Longrightarrow>
   map fst (filter (\<lambda>dp. snd dp = k) (zip xs ps)) =
   map (nth xs) (filter (\<lambda>j. ps ! j = k) [0..<length xs])"
proof (induction xs arbitrary: ps rule: rev_induct)
  case Nil
  then show ?case by simp
next
  case (snoc x xs)
  then obtain p ps' where ps: "ps = ps' @ [p]" and len: "length xs = length ps'"
    by (cases ps rule: rev_cases) auto
  have "filter (\<lambda>j. (ps' @ [p]) ! j = k) [0..<length xs] = filter (\<lambda>j. ps' ! j = k) [0..<length xs]"
    using len by (intro filter_cong) (auto simp: nth_append)
  moreover have "map (nth (xs @ [x])) (filter (\<lambda>j. ps' ! j = k) [0..<length xs])
      = map (nth xs) (filter (\<lambda>j. ps' ! j = k) [0..<length xs])"
    by (intro map_cong) (auto simp: nth_append)
  ultimately show ?case
    using snoc.IH[OF len] len by (simp add: ps nth_append)
qed

lemma fold_update_nth:
  "distinct (map fst ps) \<Longrightarrow> (i, r) \<in> set ps \<Longrightarrow> i < length xs \<Longrightarrow>
   fold (\<lambda>(i, r) merged. merged[i := r]) ps xs ! i = r"
proof (induction ps arbitrary: xs)
  case Nil
  then show ?case by simp
next
  case (Cons p ps)
  obtain j s where p: "p = (j, s)" by (cases p)
  show ?case
  proof (cases "(i, r) \<in> set ps")
    case True
    with Cons show ?thesis by (simp add: p)
  next
    case False
    with Cons.prems have eq: "j = i" "s = r" by (auto simp: p)
    have notin: "i \<notin> fst ` set ps" using Cons.prems(1) by (simp add: p eq)
    have keep: "\<And>ys. i \<notin> fst ` set ps \<Longrightarrow> fold (\<lambda>(i, r) merged. merged[i := r]) ps ys ! i = ys ! i"
    proof (induction ps)
      case Nil then show ?case by simp
    next
      case (Cons q qs)
      then show ?case by (cases q) (auto)
    qed
    show ?thesis using keep[OF notin] Cons.prems(3) by (simp add: p eq)
  qed
qed

lemma fold_update_length:
  "length (fold (\<lambda>(i, r) merged. merged[i := r]) ps xs) = length xs"
  by (induction ps arbitrary: xs) auto

lemma filter_upt_rank:
  "i < n \<Longrightarrow> P i \<Longrightarrow> filter P [0..<n] ! length (filter P [0..<i]) = i"
proof -
  assume a: "i < n" "P i"
  have "[0..<n] = [0..<i] @ i # [Suc i..<n]"
    using a(1) by (metis upt_conv_Cons upt_add_eq_append le_add_diff_inverse less_imp_le_nat zero_le)
  then have "filter P [0..<n] = filter P [0..<i] @ i # filter P [Suc i..<n]"
    using a(2) by simp
  then show ?thesis by (simp add: nth_append)
qed

lemma dynamic_partition_ok:
  assumes "num \<noteq> 0" "length xs = length ps" "list_all (\<lambda>p. 0 \<le> p \<and> p < int num) ps"
  shows "dynamic_partition xs ps num =
    Inr (map (\<lambda>k. map (nth xs) (filter (\<lambda>j. ps ! j = int k) [0..<length xs])) [0..<num])"
  using assms by (simp add: dynamic_partition_def zip_filter_nth)

lemma sequence_err_map_Inr: "sequence_err (map Inr xs) = Inr xs"
  by (induction xs) auto

lemma fold_max_eq: "fold max xs (a::'a::linorder) = Max (insert a (set xs))"
proof (induction xs arbitrary: a)
  case Nil
  then show ?case by simp
next
  case (Cons x xs)
  have "Max (insert (max x a) (set xs)) = Max (insert a (insert x (set xs)))"
    by (cases "set xs = {}") (auto simp: max.commute max.left_commute)
  with Cons show ?case by simp
qed

lemma set_concat_parts:
  assumes "list_all (\<lambda>p. 0 \<le> p \<and> p < int num) ind"
  shows "set (concat (map (rows_of_child ind) [0..<num])) = {0..<length ind}"
proof -
  have "\<And>j. j < length ind \<Longrightarrow> \<exists>k<num. ind ! j = int k"
  proof -
    fix j assume "j < length ind"
    then have "0 \<le> ind ! j \<and> ind ! j < int num" using assms by (simp add: list_all_length)
    then show "\<exists>k<num. ind ! j = int k" by (intro exI[of _ "nat (ind ! j)"]) auto
  qed
  then have "\<And>j. j < length ind \<Longrightarrow> \<exists>k\<in>{0..<num}. ind ! j = int k" by fastforce
  then show ?thesis by (auto simp: rows_of_child_def)
qed

lemma distinct_concat_parts: "distinct (concat (map (rows_of_child ind) [0..<num]))"
proof (induction num)
  case 0
  then show ?case by simp
next
  case (Suc num)
  have "set (concat (map (rows_of_child ind) [0..<num])) \<inter> set (rows_of_child ind num) = {}"
    by (auto simp: rows_of_child_def)
  with Suc show ?case by (simp add: rows_of_child_def)
qed

lemma map_fst_stitch_updates:
  assumes "length indices = length data"
    and "\<forall>k<length data. length (indices ! k) = length (rows (data ! k))"
  shows "map fst (stitch_updates indices data) = concat indices"
  using assms
proof (induction indices arbitrary: data)
  case Nil
  then show ?case by (simp add: stitch_updates_def)
next
  case (Cons js indices)
  then obtain d ds where data: "data = d # ds" by (cases data) auto
  have "length js = length (rows d)" using Cons.prems(2) by (auto simp: data)
  moreover have "map fst (stitch_updates indices ds) = concat indices"
    using Cons.prems by (intro Cons.IH) (auto simp: data)
  ultimately show ?case by (simp add: stitch_updates_def data)
qed

lemma in_stitch_updates:
  assumes "length indices = length data" "k < length data"
    "p < length (indices ! k)" "p < length (rows (data ! k))"
  shows "(indices ! k ! p, rows (data ! k) ! p) \<in> set (stitch_updates indices data)"
proof -
  have "(indices ! k, data ! k) \<in> set (zip indices data)"
    using assms(1,2) by (auto simp: set_zip)
  moreover have "(indices ! k ! p, rows (data ! k) ! p) \<in> set (zip (indices ! k) (rows (data ! k)))"
    using assms(3,4) by (auto simp: set_zip)
  ultimately show ?thesis by (force simp: stitch_updates_def)
qed

lemma stitch_size:
  assumes "list_all (\<lambda>p. 0 \<le> p \<and> p < int num) ind"
  shows "(if concat (map (rows_of_child ind) [0..<num]) = [] then 0
          else Suc (fold max (concat (map (rows_of_child ind) [0..<num])) 0)) = length ind"
proof (cases "length ind = 0")
  case True
  then show ?thesis by (simp add: rows_of_child_def)
next
  case False
  have s: "set (concat (map (rows_of_child ind) [0..<num])) = {0..<length ind}"
    by (rule set_concat_parts[OF assms])
  then have ne: "concat (map (rows_of_child ind) [0..<num]) \<noteq> []"
    using False by (metis atLeastLessThan_empty_iff2 bot_nat_0.not_eq_extremum set_empty)
  have "insert 0 {0..<length ind} = {0..<length ind}" using False by auto
  moreover have "Max {0..<length ind} = length ind - 1"
    using False by (intro Max_eqI) auto
  ultimately have "fold max (concat (map (rows_of_child ind) [0..<num])) 0 = length ind - 1"
    unfolding fold_max_eq s by simp
  then show ?thesis using ne False by simp
qed

lemma dynamic_stitch_parts:
  assumes rng: "list_all (\<lambda>p. 0 \<le> p \<and> p < int num) ind"
    and num: "num \<noteq> 0" and len: "length results = num"
    and shp: "\<forall>k<num. length (rows (results ! k)) = length (rows_of_child ind k) \<and> ncols (results ! k) = c"
  shows "\<exists>out. dynamic_stitch (map (rows_of_child ind) [0..<num]) results = Inr out
           \<and> length (rows out) = length ind \<and> ncols out = c
           \<and> (\<forall>i<length ind. rows out ! i =
                rows (results ! nat (ind ! i)) ! length (filter (\<lambda>j. ind ! j = ind ! i) [0..<i]))"
proof -
  let ?parts = "map (rows_of_child ind) [0..<num]"
  let ?ups = "stitch_updates ?parts results"
  let ?n = "if concat ?parts = [] then 0 else Suc (fold max (concat ?parts) 0)"
  let ?c = "ncols (hd results)"
  let ?merged = "fold (\<lambda>(i, r) merged. merged[i := r]) ?ups (replicate ?n (replicate ?c 0))"
  have ne: "results \<noteq> []" using num len by auto
  have c1: "list_all (\<lambda>(js, d). length js = length (rows d)) (zip ?parts results)"
    using shp len by (auto simp: list_all_length)
  have hdc: "?c = c" using shp num len ne by (simp add: hd_conv_nth)
  have c2: "list_all (\<lambda>d. ncols d = ?c) results"
    using shp len hdc by (auto simp: list_all_length)
  have eq: "dynamic_stitch ?parts results = Inr \<lparr>ncols = ?c, rows = ?merged\<rparr>"
    using ne len c1 c2 by (simp add: dynamic_stitch_def Let_def)
  have n: "?n = length ind" by (rule stitch_size[OF rng])
  have lm: "length ?merged = length ind" using n by (simp add: fold_update_length)
  have keys: "map fst ?ups = concat ?parts"
    using len shp by (intro map_fst_stitch_updates) auto
  have dist: "distinct (map fst ?ups)" by (simp add: keys distinct_concat_parts)
  have el: "?merged ! i = rows (results ! nat (ind ! i)) ! length (filter (\<lambda>j. ind ! j = ind ! i) [0..<i])"
    if i: "i < length ind" for i
  proof -
    let ?k = "nat (ind ! i)"
    let ?p = "length (filter (\<lambda>j. ind ! j = ind ! i) [0..<i])"
    have r: "0 \<le> ind ! i \<and> ind ! i < int num" using rng i by (simp add: list_all_length)
    then have k: "?k < num" and ik: "int ?k = ind ! i" by auto
    have pk: "rows_of_child ind ?k = filter (\<lambda>j. ind ! j = ind ! i) [0..<length ind]"
      unfolding rows_of_child_def ik ..
    have at: "rows_of_child ind ?k ! ?p = i"
      unfolding pk using i by (intro filter_upt_rank) auto
    have "[0..<length ind] = [0..<i] @ i # [Suc i..<length ind]"
      using i by (metis upt_conv_Cons upt_add_eq_append le_add_diff_inverse less_imp_le_nat zero_le)
    then have "filter (\<lambda>j. ind ! j = ind ! i) [0..<length ind] =
        filter (\<lambda>j. ind ! j = ind ! i) [0..<i] @ i # filter (\<lambda>j. ind ! j = ind ! i) [Suc i..<length ind]"
      by simp
    then have plt: "?p < length (rows_of_child ind ?k)" unfolding pk by simp
    have "(?parts ! ?k ! ?p, rows (results ! ?k) ! ?p) \<in> set ?ups"
      using len k plt shp by (intro in_stitch_updates) auto
    then have mem: "(i, rows (results ! ?k) ! ?p) \<in> set ?ups" using k at by simp
    show ?thesis
      using fold_update_nth[OF dist mem, of "replicate ?n (replicate ?c 0)"] i n by simp
  qed
  show ?thesis using eq lm el hdc by auto
qed

lemma sequence_err_map_Inr_fun: "sequence_err (map (\<lambda>x. Inr (f x)) xs) = Inr (map f xs)"
  by (induction xs) auto

lemma cast_index: "tf_cast_int (real k) = int k"
  by (simp add: tf_cast_int_def)

lemma switch_index_range:
  assumes "index_column_ok num Y"
  shows "list_all (\<lambda>p. 0 \<le> p \<and> p < int num) (switch_index Y)"
  using assms by (auto simp: index_column_ok_def switch_index_def list_all_iff cast_index)

lemma dynamic_partition_rows_ok:
  assumes "num \<noteq> 0" "length (rows X) = length ind" "list_all (\<lambda>p. 0 \<le> p \<and> p < int num) ind"
  shows "dynamic_partition_rows X ind num = Inr (map (\<lambda>k. select_rows X (rows_of_child ind k)) [0..<num])"
  using assms by (simp add: dynamic_partition_rows_def dynamic_partition_ok select_rows_def rows_of_child_def)

lemma dynamic_partition_range:
  assumes "num \<noteq> 0" "list_all (\<lambda>p. 0 \<le> p \<and> p < int num) ind"
  shows "dynamic_partition [0..<length ind] ind num = Inr (map (rows_of_child ind) [0..<num])"
proof -
  have "map ((!) [0..<length ind]) (filter (\<lambda>j. ind ! j = int k) [0..<length ind])
      = filter (\<lambda>j. ind ! j = int k) [0..<length ind]" for k
    by (rule map_idI) auto
  then show ?thesis using assms by (simp add: dynamic_partition_ok rows_of_child_def)
qed

text \<open>
  Claim C1. For a switched likelihood over a list of children and a batch whose last
  column of \<open>Y\<close> holds integer indices in \<open>[0, num_likelihoods)\<close>, \<open>logp(F, Y)\<close>
  succeeds when every child does on its own rows, and row \<open>i\<close> of the result is the row that
  the child selected by the index of row \<open>i\<close> returns for it, when that child is called on
  exactly the rows of \<open>F\<close> and of \<open>Y\<close> (index column stripped) whose index selects it:
  the stitched output is the per-child results in the original order.
\<close>

theorem SwitchedLikelihood_logp_rowwise:
  assumes cols: "ncols Y \<noteq> 0"
    and nr: "nrows F = nrows Y"
    and ne: "likelihood_list \<noteq> []"
    and idx: "index_column_ok (length likelihood_list) Y"
    and child: "\<forall>k<length likelihood_list. \<exists>R. child_logp likelihood_list F Y k = Inr R
                  \<and> nrows R = length (rows_of_child (switch_index Y) k) \<and> ncols R = c"
  shows "\<exists>out. SwitchedLikelihood_logp likelihood_list F Y = Inr out \<and> nrows out = nrows F
           \<and> ncols out = c
           \<and> (\<forall>i<nrows F. \<exists>k R. switch_index Y ! i = int k \<and> k < length likelihood_list
                 \<and> child_logp likelihood_list F Y k = Inr R
                 \<and> rows out ! i = rows R ! position_in_child (switch_index Y) i)"
proof -
  let ?num = "length likelihood_list"
  let ?ind = "switch_index Y"
  let ?Y1 = "drop_last_col Y"
  have num: "?num \<noteq> 0" using ne by simp
  have rng: "list_all (\<lambda>p. 0 \<le> p \<and> p < int ?num) ?ind" by (rule switch_index_range[OF idx])
  have lind: "length ?ind = nrows Y" by (simp add: switch_index_def nrows_def)
  from child obtain Rf where Rf: "\<forall>k<?num. child_logp likelihood_list F Y k = Inr (Rf k)
        \<and> nrows (Rf k) = length (rows_of_child ?ind k) \<and> ncols (Rf k) = c"
    by metis
  let ?results = "map Rf [0..<?num]"
  have pF: "dynamic_partition_rows F ?ind ?num = Inr (map (\<lambda>k. select_rows F (rows_of_child ?ind k)) [0..<?num])"
    using num nr lind rng by (intro dynamic_partition_rows_ok) (auto simp: nrows_def)
  have pY: "dynamic_partition_rows ?Y1 ?ind ?num = Inr (map (\<lambda>k. select_rows ?Y1 (rows_of_child ?ind k)) [0..<?num])"
    using num lind rng by (intro dynamic_partition_rows_ok) (auto simp: nrows_def drop_last_col_def)
  have calls: "map (\<lambda>(f, args_i). f args_i)
        (zip (map (\<lambda>lik. getattr lik ''logp'') likelihood_list)
             (map (\<lambda>k.
                 [map (\<lambda>k. select_rows F (rows_of_child ?ind k)) [0..<?num] ! k,
                  map (\<lambda>k. select_rows ?Y1 (rows_of_child ?ind k)) [0..<?num] ! k]) [0..<?num]))
      = map Inr ?results"
    using Rf by (intro nth_equalityI) (auto simp: getattr_def child_logp_def Let_def)
  have st: "\<exists>out. dynamic_stitch (map (rows_of_child ?ind) [0..<?num]) ?results = Inr out
           \<and> length (rows out) = length ?ind \<and> ncols out = c
           \<and> (\<forall>i<length ?ind. rows out ! i =
                rows (?results ! nat (?ind ! i)) ! length (filter (\<lambda>j. ?ind ! j = ?ind ! i) [0..<i]))"
    using rng num Rf by (intro dynamic_stitch_parts) (auto simp: nrows_def)
  then obtain out where out: "dynamic_stitch (map (rows_of_child ?ind) [0..<?num]) ?results = Inr out"
      "length (rows out) = length ?ind"
      "\<forall>i<length ?ind. rows out ! i =
          rows (?results ! nat (?ind ! i)) ! length (filter (\<lambda>j. ?ind ! j = ?ind ! i) [0..<i])"
      "ncols out = c"
    by blast
  have run: "SwitchedLikelihood_logp likelihood_list F Y = Inr out"
    using cols
    by (simp add: SwitchedLikelihood_logp_def partition_and_stitch_def last_col_def Let_def
        switch_index_def[symmetric] pF pY calls sequence_err_map_Inr_fun dynamic_partition_range[OF num rng] out(1)
        o_def)
  have rowsok: "\<exists>k R. ?ind ! i = int k \<and> k < ?num \<and> child_logp likelihood_list F Y k = Inr R
                 \<and> rows out ! i = rows R ! position_in_child ?ind i" if i: "i < nrows F" for i
  proof -
    have i': "i < length ?ind" using i nr lind by simp
    have r: "0 \<le> ?ind ! i \<and> ?ind ! i < int ?num" using rng i' by (simp add: list_all_length)
    let ?k = "nat (?ind ! i)"
    have k: "?k < ?num" "?ind ! i = int ?k" using r by auto
    have "rows out ! i = rows (Rf ?k) ! position_in_child ?ind i"
      using out(3) i' k(1) by (simp add: position_in_child_def)
    then show ?thesis using k Rf by blast
  qed
  show ?thesis using run out(2,4) lind nr rowsok by (auto simp: nrows_def)
qed

text \<open>
  The interleaved batch of indices \<open>[0, 1, 0, 1, 0]\<close> over two Gaussian children of
  variances 1 and 2.
\<close>

lemma switch_index_interleaved: "switch_index interleaved_Y = [0, 1, 0, 1, 0]"
  by (simp add: switch_index_def interleaved_Y_def tf_cast_int_def)

lemma rows_of_child_interleaved:
  "rows_of_child [0, 1, 0, 1, 0] 0 = [0, 2, 4]"
  "rows_of_child [0, 1, 0, 1, 0] (Suc 0) = [1, 3]"
  by (simp_all add: rows_of_child_def upt_rec)

lemma child_logp_interleaved_0:
  "child_logp [Gaussian_object 1, Gaussian_object 2] interleaved_F interleaved_Y 0 =
     Inr \<lparr>ncols = 1, rows = [[gaussian 1 1 1], [gaussian 1 3 1], [gaussian 1 5 1]]\<rparr>"
  unfolding child_logp_def switch_index_interleaved rows_of_child_interleaved Let_def
  by (simp add: Gaussian_object_def Gaussian_logp_def select_rows_def interleaved_F_def
      interleaved_Y_def drop_last_col_def logdensities_gaussian_def elementwise3_def scalar_def
      nrows_def broadcast_dim3_def broadcast_dim_def tabulate_def entry_def upt_rec)

lemma child_logp_interleaved_1:
  "child_logp [Gaussian_object 1, Gaussian_object 2] interleaved_F interleaved_Y (Suc 0) =
     Inr \<lparr>ncols = 1, rows = [[gaussian 1 2 2], [gaussian 1 4 2]]\<rparr>"
  unfolding child_logp_def switch_index_interleaved rows_of_child_interleaved Let_def
  by (simp add: Gaussian_object_def Gaussian_logp_def select_rows_def interleaved_F_def
      interleaved_Y_def drop_last_col_def logdensities_gaussian_def elementwise3_def scalar_def
      nrows_def broadcast_dim3_def broadcast_dim_def tabulate_def entry_def upt_rec)

lemma position_in_child_interleaved:
  "position_in_child [0, 1, 0, 1, 0] 0 = 0"
  "position_in_child [0, 1, 0, 1, 0] (Suc 0) = 0"
  "position_in_child [0, 1, 0, 1, 0] 2 = 1"
  "position_in_child [0, 1, 0, 1, 0] 3 = 1"
  "position_in_child [0, 1, 0, 1, 0] 4 = 2"
  by (simp_all add: position_in_child_def upt_rec)

theorem SwitchedLikelihood_logp_rowwise_witness:
  "\<exists>out. SwitchedLikelihood_logp [Gaussian_object 1, Gaussian_object 2] interleaved_F interleaved_Y
           = Inr out \<and> nrows out = 5 \<and> ncols out = 1
         \<and> rows out ! 0 = [gaussian 1 1 1] \<and> rows out ! 1 = [gaussian 1 2 2]
         \<and> rows out ! 2 = [gaussian 1 3 1] \<and> rows out ! 3 = [gaussian 1 4 2]
         \<and> rows out ! 4 = [gaussian 1 5 1]"
proof -
  let ?liks = "[Gaussian_object 1, Gaussian_object 2]"
  let ?ind = "[0, 1, 0, 1, 0] :: int list"
  have h1: "ncols interleaved_Y \<noteq> 0" by (simp add: interleaved_Y_def)
  have h2: "nrows interleaved_F = nrows interleaved_Y"
    by (simp add: nrows_def interleaved_F_def interleaved_Y_def)
  have h3: "?liks \<noteq> []" by simp
  have h4: "index_column_ok (length ?liks) interleaved_Y"
    by (simp add: index_column_ok_def interleaved_Y_def)
  have h5: "\<forall>k<length ?liks.
      \<exists>R. child_logp ?liks interleaved_F interleaved_Y k = Inr R
        \<and> nrows R = length (rows_of_child (switch_index interleaved_Y) k) \<and> ncols R = 1"
    using child_logp_interleaved_0 child_logp_interleaved_1
    by (auto simp: less_Suc_eq switch_index_interleaved rows_of_child_interleaved numeral_2_eq_2
        nrows_def)
  have n: "nrows interleaved_F = 5" by (simp add: nrows_def interleaved_F_def)
  from SwitchedLikelihood_logp_rowwise[OF h1 h2 h3 h4 h5] obtain out where
    out: "SwitchedLikelihood_logp ?liks interleaved_F interleaved_Y = Inr out"
      "nrows out = 5" "ncols out = 1"
    and row: "\<forall>i<5. \<exists>k R. ?ind ! i = int k \<and> k < length ?liks
                 \<and> child_logp ?liks interleaved_F interleaved_Y k = Inr R
                 \<and> rows out ! i = rows R ! position_in_child ?ind i"
    unfolding n switch_index_interleaved by blast
  have even: "rows out ! i = rows \<lparr>ncols = 1, rows = [[gaussian 1 1 1], [gaussian 1 3 1],
        [gaussian 1 5 1]]\<rparr> ! position_in_child ?ind i" if "i < 5" "?ind ! i = 0" for i
  proof -
    from row that(1) obtain k R where kR: "?ind ! i = int k"
        "child_logp ?liks interleaved_F interleaved_Y k = Inr R"
        "rows out ! i = rows R ! position_in_child ?ind i" by blast
    have "k = 0" using kR(1) that(2) by simp
    then show ?thesis using kR(2,3) child_logp_interleaved_0 by simp
  qed
  have odd: "rows out ! i = rows \<lparr>ncols = 1, rows = [[gaussian 1 2 2], [gaussian 1 4 2]]\<rparr>
        ! position_in_child ?ind i" if "i < 5" "?ind ! i = 1" for i
  proof -
    from row that(1) obtain k R where kR: "?ind ! i = int k"
        "child_logp ?liks interleaved_F interleaved_Y k = Inr R"
        "rows out ! i = rows R ! position_in_child ?ind i" by blast
    have "k = Suc 0" using kR(1) that(2) by simp
    then show ?thesis using kR(2,3) child_logp_interleaved_1 by simp
  qed
  have r0: "rows out ! 0 = [gaussian 1 1 1]"
    using even[of 0] by (simp add: position_in_child_interleaved)
  have r1: "rows out ! 1 = [gaussian 1 2 2]"
    using odd[of 1] by (simp add: position_in_child_interleaved)
  have r2: "rows out ! 2 = [gaussian 1 3 1]"
    using even[of 2] by (simp add: position_in_child_interleaved)
  have r3: "rows out ! 3 = [gaussian 1 4 2]"
    using odd[of 3] by (simp add: position_in_child_interleaved)
  have r4: "rows out ! 4 = [gaussian 1 5 1]"
    using even[of 4] by (simp add: position_in_child_interleaved)
  show ?thesis using out r0 r1 r2 r3 r4 by blast
qed

text \<open>
  The same batch evaluated: rows 0, 2 and 4 carry the density of the first child, rows 1
  and 3 that of the second, each at its own position.
\<close>

lemma SwitchedLikelihood_logp_interleaved:
  "SwitchedLikelihood_logp [Gaussian_object 1, Gaussian_object 2] interleaved_F interleaved_Y =
     Inr \<lparr>ncols = 1, rows = [[gaussian 1 1 1], [gaussian 1 2 2], [gaussian 1 3 1],
                               [gaussian 1 4 2], [gaussian 1 5 1]]\<rparr>"
  by (simp add: SwitchedLikelihood_logp_def partition_and_stitch_def last_col_def
      interleaved_F_def interleaved_Y_def drop_last_col_def tf_cast_int_def
      dynamic_partition_rows_def dynamic_partition_def getattr_def Gaussian_object_def
      Gaussian_logp_def logdensities_gaussian_def elementwise3_def scalar_def nrows_def
      broadcast_dim3_def broadcast_dim_def tabulate_def entry_def dynamic_stitch_def
      stitch_updates_def upt_rec Let_def)

section \<open>Element-wise operations on tensors of one shape\<close>

lemma nrows_tabulate [simp]: "nrows (tabulate n p f) = n"
  by (simp add: nrows_def tabulate_def)

lemma ncols_tabulate [simp]: "ncols (tabulate n p f) = p"
  by (simp add: tabulate_def)

lemma rows_tabulate_nth: "i < n \<Longrightarrow> j < p \<Longrightarrow> rows (tabulate n p f) ! i ! j = f i j"
  by (simp add: tabulate_def)

lemma wf_tabulate: "wf_tensor (tabulate n p f)"
  by (simp add: wf_tensor_def tabulate_def list_all_iff)

lemma entry_in_range: "i < nrows A \<Longrightarrow> j < ncols A \<Longrightarrow> entry A i j = rows A ! i ! j"
  by (auto simp: entry_def)

lemma nrows_elementwise1 [simp]: "nrows (elementwise1 f A) = nrows A"
  by (simp add: nrows_def elementwise1_def)

lemma ncols_elementwise1 [simp]: "ncols (elementwise1 f A) = ncols A"
  by (simp add: elementwise1_def)

lemma wf_row: "wf_tensor A \<Longrightarrow> i < nrows A \<Longrightarrow> length (rows A ! i) = ncols A"
  by (simp add: wf_tensor_def nrows_def list_all_length)

lemma rows_elementwise1_nth:
  "wf_tensor A \<Longrightarrow> i < nrows A \<Longrightarrow> j < ncols A \<Longrightarrow> rows (elementwise1 f A) ! i ! j = f (rows A ! i ! j)"
  using wf_row[of A i] by (simp add: elementwise1_def nrows_def)

lemma wf_elementwise1: "wf_tensor A \<Longrightarrow> wf_tensor (elementwise1 f A)"
  by (simp add: wf_tensor_def elementwise1_def list_all_iff)

lemma broadcast_dim_same [simp]: "broadcast_dim a a = Inr a"
  by (simp add: broadcast_dim_def)

lemma broadcast_dim3_same [simp]: "broadcast_dim3 a a a = Inr a"
  by (simp add: broadcast_dim3_def)

lemma elementwise2_same_shape:
  assumes "same_shape A B"
  shows "elementwise2 f A B = Inr (tabulate (nrows A) (ncols A) (\<lambda>i j. f (entry A i j) (entry B i j)))"
  using assms by (simp add: elementwise2_def same_shape_def)

lemma elementwise3_same_shape:
  assumes "same_shape A B" "same_shape A C"
  shows "elementwise3 f A B C =
    Inr (tabulate (nrows A) (ncols A) (\<lambda>i j. f (entry A i j) (entry B i j) (entry C i j)))"
  using assms by (simp add: elementwise3_def same_shape_def)

lemma ln_normal_density:
  assumes "0 < var"
  shows "ln (normal_density mean var y) = gaussian y mean var"
proof -
  have pos: "0 < sqrt (2 * pi * var)" using assms by simp
  have "ln (normal_density mean var y) = - (y - mean)\<^sup>2 / (2 * var) - ln (sqrt (2 * pi * var))"
    unfolding normal_density_def using pos by (simp add: ln_div)
  also have "ln (sqrt (2 * pi * var)) = (ln (2 * pi) + ln var) / 2"
    using assms by (simp add: ln_sqrt ln_mult)
  also have "(y - mean)\<^sup>2 = (mean - y)\<^sup>2" by (simp add: power2_commute)
  finally show ?thesis by (simp add: gaussian_def field_simps)
qed

text \<open>
  Claim C2. \<open>Gaussian.predict_density(Fmu, Fvar, Y)\<close> is, entry by entry, the logarithm of
  the normal density of \<open>Y\<close> under mean \<open>Fmu\<close> and variance \<open>Fvar + variance\<close>: the closed
  form, with no quadrature (wherever that variance is positive, as the density asks).
\<close>

theorem Gaussian_predict_density_closed_form:
  assumes shp: "same_shape Fmu Fvar" "same_shape Fmu Y" and wf: "wf_tensor Fmu" "wf_tensor Fvar" "wf_tensor Y"
  shows "\<exists>D. Gaussian_predict_density variance Fmu Fvar Y = Inr D \<and> same_shape D Fmu
     \<and> (\<forall>i<nrows Fmu. \<forall>j<ncols Fmu. 0 < rows Fvar ! i ! j + variance \<longrightarrow>
           rows D ! i ! j =
             ln (normal_density (rows Fmu ! i ! j) (rows Fvar ! i ! j + variance) (rows Y ! i ! j)))"
proof -
  let ?V = "elementwise1 (\<lambda>v. v + variance) Fvar"
  let ?D = "tabulate (nrows Y) (ncols Y) (\<lambda>i j. gaussian (entry Y i j) (entry Fmu i j) (entry ?V i j))"
  have s1: "same_shape Y Fmu" "same_shape Y ?V" using shp by (auto simp: same_shape_def)
  have run: "Gaussian_predict_density variance Fmu Fvar Y = Inr ?D"
    unfolding Gaussian_predict_density_def logdensities_gaussian_def
    by (rule elementwise3_same_shape[OF s1])
  have sh: "same_shape ?D Fmu" using shp by (simp add: same_shape_def)
  have el: "rows ?D ! i ! j = ln (normal_density (rows Fmu ! i ! j) (rows Fvar ! i ! j + variance) (rows Y ! i ! j))"
    if ij: "i < nrows Fmu" "j < ncols Fmu" and pos: "0 < rows Fvar ! i ! j + variance" for i j
  proof -
    have b: "i < nrows Y" "j < ncols Y" "i < nrows Fvar" "j < ncols Fvar"
      using ij shp by (auto simp: same_shape_def)
    have "rows ?D ! i ! j = gaussian (rows Y ! i ! j) (rows Fmu ! i ! j) (rows Fvar ! i ! j + variance)"
      using b ij wf by (simp add: rows_tabulate_nth entry_in_range rows_elementwise1_nth)
    then show ?thesis using ln_normal_density[OF pos] by simp
  qed
  show ?thesis using run sh el by blast
qed

theorem Gaussian_predict_density_closed_form_witness:
  "\<exists>D. Gaussian_predict_density 1 \<lparr>ncols = 1, rows = [[0]]\<rparr> \<lparr>ncols = 1, rows = [[1]]\<rparr>
          \<lparr>ncols = 1, rows = [[3]]\<rparr> = Inr D
       \<and> rows D ! 0 ! 0 = ln (normal_density 0 2 3)"
proof -
  let ?Fmu = "\<lparr>ncols = 1, rows = [[0::real]]\<rparr>"
  let ?Fvar = "\<lparr>ncols = 1, rows = [[1::real]]\<rparr>"
  let ?Y = "\<lparr>ncols = 1, rows = [[3::real]]\<rparr>"
  have h: "same_shape ?Fmu ?Fvar" "same_shape ?Fmu ?Y" "wf_tensor ?Fmu" "wf_tensor ?Fvar" "wf_tensor ?Y"
    by (simp_all add: same_shape_def nrows_def wf_tensor_def)
  show ?thesis
    using Gaussian_predict_density_closed_form[OF h, of 1] by (auto simp: nrows_def)
qed

section \<open>Multi-class and soft-max failures\<close>

text \<open>
  Claim C6. Constructing a \<open>MultiClass\<close> with an inverse link that is not a RobustMax
  fails with \<open>NotImplementedError\<close>, and so do \<open>logp\<close>, \<open>variational_expectations\<close>,
  \<open>predict_mean_and_var\<close> and \<open>predict_density\<close> of a \<open>MultiClass\<close> whose inverse link is
  not a RobustMax, whatever their arguments: no value is returned.
\<close>

theorem MultiClass_not_RobustMax_unimplemented:
  "MultiClass_init n (Some (Not_RobustMax g)) = Inl NotImplementedError
   \<and> MultiClass_logp \<lparr>mc_num_classes = n, mc_invlink = Not_RobustMax g\<rparr> F Y = Inl NotImplementedError
   \<and> MultiClass_variational_expectations tf \<lparr>mc_num_classes = n, mc_invlink = Not_RobustMax g\<rparr> Fmu Fvar Y
       = Inl NotImplementedError
   \<and> MultiClass_predict_mean_and_var tf \<lparr>mc_num_classes = n, mc_invlink = Not_RobustMax g\<rparr> Fmu Fvar
       = Inl NotImplementedError
   \<and> MultiClass_predict_density tf \<lparr>mc_num_classes = n, mc_invlink = Not_RobustMax g\<rparr> Fmu Fvar Y
       = Inl NotImplementedError"
  by (simp add: MultiClass_init_def MultiClass_logp_def MultiClass_variational_expectations_def
      MultiClass_predict_mean_and_var_def MultiClass_predict_density_def
      MultiClass_predict_non_logged_density_def)

text \<open>
  Claim C9. \<open>SoftMax.logp(F, Y)\<close> fails its assertion exactly when \<open>Y\<close> does not have one
  column or \<open>F\<close> does not have \<open>num_classes\<close> columns; the failure is that of the assertion,
  whatever the cross-entropy would have done on these arguments.
\<close>

theorem SoftMax_logp_precondition:
  "SoftMax_logp self_num_classes F Y = Inl Assert_equal_failed
     \<longleftrightarrow> (ncols Y \<noteq> 1 \<or> ncols F \<noteq> self_num_classes)"
  by (auto simp: SoftMax_logp_def split: sum.splits)

theorem SoftMax_logp_precondition_witness:
  "SoftMax_logp 3 \<lparr>ncols = 2, rows = [[0, 1]]\<rparr> \<lparr>ncols = 1, rows = [[0]]\<rparr> = Inl Assert_equal_failed
   \<and> SoftMax_logp 2 \<lparr>ncols = 2, rows = [[0, 1]]\<rparr> \<lparr>ncols = 2, rows = [[0, 0]]\<rparr> = Inl Assert_equal_failed
   \<and> SoftMax_logp 2 \<lparr>ncols = 2, rows = [[0, 1]]\<rparr> \<lparr>ncols = 1, rows = [[0]]\<rparr> \<noteq> Inl Assert_equal_failed"
  using SoftMax_logp_precondition[of 3 "\<lparr>ncols = 2, rows = [[0, 1]]\<rparr>" "\<lparr>ncols = 1, rows = [[0]]\<rparr>"]
    SoftMax_logp_precondition[of 2 "\<lparr>ncols = 2, rows = [[0, 1]]\<rparr>" "\<lparr>ncols = 2, rows = [[0, 0]]\<rparr>"]
    SoftMax_logp_precondition[of 2 "\<lparr>ncols = 2, rows = [[0, 1]]\<rparr>" "\<lparr>ncols = 1, rows = [[0]]\<rparr>"]
  by simp

section \<open>Bernoulli predictions and the switched prediction\<close>

text \<open>
  Claim C7. With the probit link \<open>Bernoulli.predict_mean_and_var(Fmu, Fvar)\<close> is the closed
  form, the mean \<open>p = inv_probit(Fmu / sqrt(1 + Fvar))\<close> and the variance \<open>p - p\<^sup>2\<close> entry by
  entry; with any other link it is the generic method of the base class on the
  likelihood's conditional mean and variance.
\<close>

theorem Bernoulli_predict_mean_and_var_probit:
  "(same_shape Fmu Fvar \<and> wf_tensor Fmu \<and> wf_tensor Fvar \<longrightarrow>
      (\<exists>p v. Bernoulli_predict_mean_and_var tf Inv_probit Fmu Fvar = Inr (p, v)
         \<and> same_shape p Fmu \<and> same_shape v Fmu
         \<and> (\<forall>i<nrows Fmu. \<forall>j<ncols Fmu.
               rows p ! i ! j = inv_probit tf (rows Fmu ! i ! j / sqrt (1 + rows Fvar ! i ! j))
             \<and> rows v ! i ! j = rows p ! i ! j - (rows p ! i ! j)\<^sup>2)))
   \<and> (invlink \<noteq> Inv_probit \<longrightarrow>
        Bernoulli_predict_mean_and_var tf invlink Fmu Fvar =
          Likelihood_predict_mean_and_var tf (Bernoulli_conditional_mean1 tf invlink)
            (Bernoulli_conditional_variance1 tf invlink) Fmu Fvar)"
proof (intro conjI impI)
  assume a: "same_shape Fmu Fvar \<and> wf_tensor Fmu \<and> wf_tensor Fvar"
  let ?p = "tabulate (nrows Fmu) (ncols Fmu)
              (\<lambda>i j. inv_probit tf (entry Fmu i j / sqrt (1 + entry Fvar i j)))"
  let ?v = "elementwise1 (\<lambda>p. p - p\<^sup>2) ?p"
  have run: "Bernoulli_predict_mean_and_var tf Inv_probit Fmu Fvar = Inr (?p, ?v)"
    using a by (simp add: Bernoulli_predict_mean_and_var_def elementwise2_same_shape)
  have sh: "same_shape ?p Fmu" "same_shape ?v Fmu" by (simp_all add: same_shape_def)
  have el: "rows ?p ! i ! j = inv_probit tf (rows Fmu ! i ! j / sqrt (1 + rows Fvar ! i ! j))
        \<and> rows ?v ! i ! j = rows ?p ! i ! j - (rows ?p ! i ! j)\<^sup>2"
    if "i < nrows Fmu" "j < ncols Fmu" for i j
    using that a
    by (simp add: rows_elementwise1_nth wf_tabulate rows_tabulate_nth entry_in_range same_shape_def)
  show "\<exists>p v. Bernoulli_predict_mean_and_var tf Inv_probit Fmu Fvar = Inr (p, v)
         \<and> same_shape p Fmu \<and> same_shape v Fmu
         \<and> (\<forall>i<nrows Fmu. \<forall>j<ncols Fmu.
               rows p ! i ! j = inv_probit tf (rows Fmu ! i ! j / sqrt (1 + rows Fvar ! i ! j))
             \<and> rows v ! i ! j = rows p ! i ! j - (rows p ! i ! j)\<^sup>2)"
    using run sh el by blast
next
  assume "invlink \<noteq> Inv_probit"
  then show "Bernoulli_predict_mean_and_var tf invlink Fmu Fvar =
          Likelihood_predict_mean_and_var tf (Bernoulli_conditional_mean1 tf invlink)
            (Bernoulli_conditional_variance1 tf invlink) Fmu Fvar"
    by (cases invlink) (simp_all add: Bernoulli_predict_mean_and_var_def)
qed

theorem Bernoulli_predict_mean_and_var_probit_witness:
  "(\<exists>p v. Bernoulli_predict_mean_and_var sample_primitives Inv_probit
             \<lparr>ncols = 1, rows = [[0]]\<rparr> \<lparr>ncols = 1, rows = [[3]]\<rparr> = Inr (p, v)
         \<and> rows p ! 0 ! 0 = 1 / 2 \<and> rows v ! 0 ! 0 = 1 / 4)
   \<and> Bernoulli_predict_mean_and_var sample_primitives Tf_exp
        \<lparr>ncols = 1, rows = [[0]]\<rparr> \<lparr>ncols = 1, rows = [[3]]\<rparr> =
      Likelihood_predict_mean_and_var sample_primitives
        (Bernoulli_conditional_mean1 sample_primitives Tf_exp)
        (Bernoulli_conditional_variance1 sample_primitives Tf_exp)
        \<lparr>ncols = 1, rows = [[0]]\<rparr> \<lparr>ncols = 1, rows = [[3]]\<rparr>"
proof -
  let ?Fmu = "\<lparr>ncols = 1, rows = [[0::real]]\<rparr>"
  let ?Fvar = "\<lparr>ncols = 1, rows = [[3::real]]\<rparr>"
  have h: "same_shape ?Fmu ?Fvar \<and> wf_tensor ?Fmu \<and> wf_tensor ?Fvar"
    by (simp add: same_shape_def nrows_def wf_tensor_def)
  have ip: "inv_probit sample_primitives 0 = 1 / 2"
    by (simp add: inv_probit_def sample_primitives_def)
  have ne: "Tf_exp \<noteq> Inv_probit" by simp
  note t = Bernoulli_predict_mean_and_var_probit[of ?Fmu ?Fvar sample_primitives Tf_exp]
  from t h obtain p v where pv:
    "Bernoulli_predict_mean_and_var sample_primitives Inv_probit ?Fmu ?Fvar = Inr (p, v)"
    "\<forall>i<nrows ?Fmu. \<forall>j<ncols ?Fmu.
        rows p ! i ! j = inv_probit sample_primitives (rows ?Fmu ! i ! j / sqrt (1 + rows ?Fvar ! i ! j))
      \<and> rows v ! i ! j = rows p ! i ! j - (rows p ! i ! j)\<^sup>2"
    by blast
  have "rows p ! 0 ! 0 = inv_probit sample_primitives (rows ?Fmu ! 0 ! 0 / sqrt (1 + rows ?Fvar ! 0 ! 0))
      \<and> rows v ! 0 ! 0 = rows p ! 0 ! 0 - (rows p ! 0 ! 0)\<^sup>2"
    using pv(2) by (simp add: nrows_def)
  then have e0: "rows p ! 0 ! 0 = 1 / 2" and e1: "rows v ! 0 ! 0 = rows p ! 0 ! 0 - (rows p ! 0 ! 0)\<^sup>2"
    by (simp_all add: ip)
  have "rows v ! 0 ! 0 = 1 / 2 - (1 / 2)\<^sup>2" using e1 unfolding e0 .
  then have e2: "rows v ! 0 ! 0 = 1 / 4" by (simp add: power2_eq_square)
  note e = e0 e2
  show ?thesis using pv(1) e t ne by blast
qed

text \<open>
  Claim C10. For a binary \<open>Y\<close>, \<open>Bernoulli.predict_density(Fmu, Fvar, Y)\<close> is, entry by
  entry, the logarithm of the Bernoulli mass of \<open>Y\<close> at \<open>p\<close>, the first output of
  \<open>Bernoulli.predict_mean_and_var(Fmu, Fvar)\<close>, for every inverse link: the probit closed
  form or the quadrature of the mean, never the log-space quadrature of \<open>logp\<close>.
\<close>

theorem Bernoulli_predict_density_uses_mean:
  assumes pmv: "Bernoulli_predict_mean_and_var tf invlink Fmu Fvar = Inr (p, v)"
    and shp: "same_shape Y p" and wf: "wf_tensor Y" "wf_tensor p"
    and bin: "list_all (list_all (\<lambda>y. y = 0 \<or> y = 1)) (rows Y)"
  shows "\<exists>D. Bernoulli_predict_density tf invlink Fmu Fvar Y = Inr D \<and> same_shape D Y
     \<and> (\<forall>i<nrows Y. \<forall>j<ncols Y.
           rows D ! i ! j = ln (bernoulli_mass (rows p ! i ! j) (rows Y ! i ! j)))"
proof -
  let ?D = "tabulate (nrows Y) (ncols Y) (\<lambda>i j. bernoulli (entry Y i j) (entry p i j))"
  have run: "Bernoulli_predict_density tf invlink Fmu Fvar Y = Inr ?D"
    using pmv shp by (simp add: Bernoulli_predict_density_def logdensities_bernoulli_def
        elementwise2_same_shape)
  have el: "rows ?D ! i ! j = ln (bernoulli_mass (rows p ! i ! j) (rows Y ! i ! j))"
    if ij: "i < nrows Y" "j < ncols Y" for i j
  proof -
    have "j < length (rows Y ! i)" using wf_row[OF wf(1) ij(1)] ij(2) by simp
    then have "rows Y ! i ! j = 0 \<or> rows Y ! i ! j = 1"
      using bin ij(1) by (simp add: list_all_length nrows_def)
    then show ?thesis
      using ij shp by (auto simp: rows_tabulate_nth entry_in_range same_shape_def
          bernoulli_def bernoulli_mass_def)
  qed
  show ?thesis using run el by (auto simp: same_shape_def)
qed

theorem Bernoulli_predict_density_uses_mean_witness:
  "\<exists>D. Bernoulli_predict_density sample_primitives Inv_probit
          \<lparr>ncols = 1, rows = [[0]]\<rparr> \<lparr>ncols = 1, rows = [[3]]\<rparr> \<lparr>ncols = 1, rows = [[1]]\<rparr> = Inr D
     \<and> rows D ! 0 ! 0 = ln (bernoulli_mass (1 / 2) 1)"
proof -
  let ?Fmu = "\<lparr>ncols = 1, rows = [[0::real]]\<rparr>"
  let ?Fvar = "\<lparr>ncols = 1, rows = [[3::real]]\<rparr>"
  let ?Y = "\<lparr>ncols = 1, rows = [[1::real]]\<rparr>"
  let ?p = "\<lparr>ncols = 1, rows = [[1 / 2 :: real]]\<rparr>"
  let ?v = "\<lparr>ncols = 1, rows = [[1 / 4 :: real]]\<rparr>"
  have ip: "inv_probit sample_primitives 0 = 1 / 2"
    by (simp add: inv_probit_def sample_primitives_def)
  have h1: "Bernoulli_predict_mean_and_var sample_primitives Inv_probit ?Fmu ?Fvar = Inr (?p, ?v)"
    by (simp add: Bernoulli_predict_mean_and_var_def elementwise2_def nrows_def tabulate_def
        entry_def elementwise1_def ip power2_eq_square)
  have h2: "same_shape ?Y ?p" "wf_tensor ?Y" "wf_tensor ?p"
    "list_all (list_all (\<lambda>y. y = 0 \<or> y = 1)) (rows ?Y)"
    by (simp_all add: same_shape_def nrows_def wf_tensor_def)
  show ?thesis
    using Bernoulli_predict_density_uses_mean[OF h1 h2] by (auto simp: nrows_def)
qed

lemma sequence_err_all_Inr:
  assumes "list_all (\<lambda>r. \<not> isl r) rs"
  shows "sequence_err rs = Inr (map projr rs)"
  using assms
proof (induction rs)
  case Nil
  then show ?case by simp
next
  case (Cons r rs)
  then show ?case by (cases r) auto
qed

text \<open>
  Claim C8. \<open>SwitchedLikelihood.predict_mean_and_var(Fmu, Fvar)\<close> calls every child on the
  whole batch, with no index involved, and row \<open>i\<close> of its mean (its variance) is the
  concatenation of row \<open>i\<close> of the children's means (variances), in the order of the list:
  one block of columns for every child.
\<close>

theorem SwitchedLikelihood_predict_mean_and_var_concat:
  assumes ne: "likelihood_list \<noteq> []"
    and ok: "list_all (\<lambda>lik. \<not> isl (predict_mean_and_var lik Fmu Fvar)
               \<and> nrows (fst (projr (predict_mean_and_var lik Fmu Fvar))) = n
               \<and> nrows (snd (projr (predict_mean_and_var lik Fmu Fvar))) = n) likelihood_list"
  shows "\<exists>mu var. SwitchedLikelihood_predict_mean_and_var likelihood_list Fmu Fvar = Inr (mu, var)
     \<and> nrows mu = n \<and> nrows var = n
     \<and> ncols mu = sum_list (map (\<lambda>lik. ncols (fst (projr (predict_mean_and_var lik Fmu Fvar)))) likelihood_list)
     \<and> ncols var = sum_list (map (\<lambda>lik. ncols (snd (projr (predict_mean_and_var lik Fmu Fvar)))) likelihood_list)
     \<and> (\<forall>i<n. rows mu ! i =
            concat (map (\<lambda>lik. rows (fst (projr (predict_mean_and_var lik Fmu Fvar))) ! i) likelihood_list)
          \<and> rows var ! i =
            concat (map (\<lambda>lik. rows (snd (projr (predict_mean_and_var lik Fmu Fvar))) ! i) likelihood_list))"
proof -
  let ?mvs = "map (\<lambda>lik. projr (predict_mean_and_var lik Fmu Fvar)) likelihood_list"
  have "list_all (\<lambda>r. \<not> isl r) (map (\<lambda>lik. predict_mean_and_var lik Fmu Fvar) likelihood_list)"
    using ok by (simp add: list_all_iff)
  then have seq: "sequence_err (map (\<lambda>lik. predict_mean_and_var lik Fmu Fvar) likelihood_list) = Inr ?mvs"
    by (simp add: sequence_err_all_Inr o_def)
  obtain l ls where L: "likelihood_list = l # ls" using ne by (cases likelihood_list) auto
  have hm: "nrows (hd (map fst ?mvs)) = n" "nrows (hd (map snd ?mvs)) = n"
    using ok by (simp_all add: L)
  have am: "list_all (\<lambda>t. nrows t = n) (map fst ?mvs)" "list_all (\<lambda>t. nrows t = n) (map snd ?mvs)"
    using ok by (simp_all add: list_all_iff)
  have cm: "concat_cols (map fst ?mvs) = Inr \<lparr>ncols = sum_list (map ncols (map fst ?mvs)),
        rows = map (\<lambda>i. concat (map (\<lambda>t. rows t ! i) (map fst ?mvs))) [0..<n]\<rparr>"
    unfolding concat_cols_def hm using am(1) ne by simp
  have cv: "concat_cols (map snd ?mvs) = Inr \<lparr>ncols = sum_list (map ncols (map snd ?mvs)),
        rows = map (\<lambda>i. concat (map (\<lambda>t. rows t ! i) (map snd ?mvs))) [0..<n]\<rparr>"
    unfolding concat_cols_def hm using am(2) ne by simp
  have mvne: "?mvs \<noteq> []" using ne by simp
  show ?thesis
    unfolding SwitchedLikelihood_predict_mean_and_var_def seq
    using mvne cm cv by (simp add: Let_def nrows_def o_def)
qed

theorem SwitchedLikelihood_predict_mean_and_var_concat_witness:
  "\<exists>mu var. SwitchedLikelihood_predict_mean_and_var [Gaussian_object 1, Gaussian_object 2]
        \<lparr>ncols = 1, rows = [[1], [2]]\<rparr> \<lparr>ncols = 1, rows = [[3], [4]]\<rparr> = Inr (mu, var)
     \<and> ncols mu = 2 \<and> ncols var = 2
     \<and> rows mu ! 0 = [1, 1] \<and> rows mu ! 1 = [2, 2]
     \<and> rows var ! 0 = [4, 5] \<and> rows var ! 1 = [5, 6]"
proof -
  let ?Fmu = "\<lparr>ncols = 1, rows = [[1::real], [2]]\<rparr>"
  let ?Fvar = "\<lparr>ncols = 1, rows = [[3::real], [4]]\<rparr>"
  let ?liks = "[Gaussian_object 1, Gaussian_object 2]"
  have h1: "?liks \<noteq> []" by simp
  have h2: "list_all (\<lambda>lik. \<not> isl (predict_mean_and_var lik ?Fmu ?Fvar)
               \<and> nrows (fst (projr (predict_mean_and_var lik ?Fmu ?Fvar))) = 2
               \<and> nrows (snd (projr (predict_mean_and_var lik ?Fmu ?Fvar))) = 2) ?liks"
    by (simp add: Gaussian_object_def Gaussian_predict_mean_and_var_def nrows_def elementwise1_def)
  show ?thesis
    using SwitchedLikelihood_predict_mean_and_var_concat[OF h1 h2]
    by (auto simp: Gaussian_object_def Gaussian_predict_mean_and_var_def elementwise1_def
        numeral_2_eq_2 less_Suc_eq all_conj_distrib)
qed

section \<open>RobustMax rows\<close>

lemma fold_max_hd: "xs \<noteq> [] \<Longrightarrow> fold max xs (hd xs) = Max (set xs)"
proof -
  assume "xs \<noteq> []"
  then obtain y ys where xs: "xs = y # ys" by (cases xs) auto
  show ?thesis by (simp add: xs fold_max_eq)
qed

lemma argmax_less: "xs \<noteq> [] \<Longrightarrow> argmax xs < length xs"
proof -
  assume ne: "xs \<noteq> []"
  have "Max (set xs) \<in> set xs" using ne by (intro Max_in) auto
  then have "\<exists>x\<in>set xs. \<not> x \<noteq> fold max xs (hd xs)" by (simp add: fold_max_hd[OF ne])
  then have "takeWhile (\<lambda>x. x \<noteq> fold max xs (hd xs)) xs \<noteq> xs"
    by (simp add: takeWhile_eq_all_conv)
  then show ?thesis
    unfolding argmax_def using length_takeWhile_le[of "\<lambda>x. x \<noteq> fold max xs (hd xs)" xs]
    by (metis le_neq_implies_less takeWhile_eq_take take_all_iff order_refl)
qed

lemma argmax_greatest:
  assumes "xs \<noteq> []"
  shows "xs ! argmax xs = Max (set xs)" and "\<forall>j<argmax xs. xs ! j < Max (set xs)"
proof -
  have m: "fold max xs (hd xs) = Max (set xs)" by (rule fold_max_hd[OF assms])
  have "\<not> (xs ! argmax xs \<noteq> fold max xs (hd xs))"
    using argmax_less[OF assms] unfolding argmax_def by (rule nth_length_takeWhile)
  then show "xs ! argmax xs = Max (set xs)" by (simp add: m)
  show "\<forall>j<argmax xs. xs ! j < Max (set xs)"
  proof (intro allI impI)
    fix j assume j: "j < argmax xs"
    then have "xs ! j \<noteq> Max (set xs)"
      unfolding argmax_def m
      by (metis (mono_tags, lifting) nth_mem set_takeWhileD takeWhile_nth)
    moreover have "xs ! j \<le> Max (set xs)"
      using j argmax_less[OF assms] by (intro Max_ge) auto
    ultimately show "xs ! j < Max (set xs)" by simp
  qed
qed

lemma sum_list_one_hot:
  assumes "i < depth"
  shows "sum_list (one_hot i depth on_value off_value) = on_value + (real depth - 1) * off_value"
proof -
  have "sum_list (one_hot i depth on_value off_value)
      = (\<Sum>c\<in>{0..<depth}. if c = i then on_value else off_value)"
    by (simp add: one_hot_def interv_sum_list_conv_sum_set_nat)
  also have "\<dots> = (\<Sum>c\<in>{0..<depth}. off_value + (if c = i then on_value - off_value else 0))"
    by (intro sum.cong) auto
  also have "\<dots> = real depth * off_value + (on_value - off_value)"
    using assms by (simp add: sum.distrib)
  finally show ?thesis by (simp add: algebra_simps)
qed

text \<open>
  The row properties need at least two classes and one score per class; the source checks
  neither. With a single class the only entry of a row is \<open>1 - epsilon\<close>; with more
  scores than classes and the greatest score beyond the last class, \<open>one_hot\<close> is off
  everywhere. In both cases the row does not sum to 1.
\<close>

lemma RobustMax_call_single_class:
  "RobustMax_call \<lparr>epsilon = e, num_classes = 1\<rparr> \<lparr>ncols = 1, rows = [[x]]\<rparr>
     = Inr \<lparr>ncols = 1, rows = [[1 - e]]\<rparr>"
  by (simp add: RobustMax_call_def tf_argmax_def argmax_def one_hot_def)

theorem RobustMax_rows_counterexample:
  "0 < (1 / 2 :: real) \<and> (1 / 2 :: real) < 1
   \<and> RobustMax_call \<lparr>epsilon = 1 / 2, num_classes = 1\<rparr> \<lparr>ncols = 1, rows = [[0]]\<rparr>
       = Inr \<lparr>ncols = 1, rows = [[1 / 2]]\<rparr>
   \<and> sum_list [1 / 2 :: real] \<noteq> 1
   \<and> 0 < (1 / 10 :: real) \<and> (1 / 10 :: real) < 1
   \<and> RobustMax_call \<lparr>epsilon = 1 / 10, num_classes = 2\<rparr> \<lparr>ncols = 3, rows = [[0, 0, 1]]\<rparr>
       = Inr \<lparr>ncols = 2, rows = [[1 / 10, 1 / 10]]\<rparr>
   \<and> sum_list [1 / 10, 1 / 10 :: real] \<noteq> 1"
  by (simp add: RobustMax_call_def tf_argmax_def argmax_def one_hot_def eps_K1_def upt_rec)

text \<open>
  Claim C3, amended. For a RobustMax of \<open>K \<ge> 2\<close> classes and a score matrix of exactly
  \<open>K\<close> columns, every output row sums to 1; the position that \<open>argmax\<close> selects in a row of
  scores is a class, it holds the greatest score of the row and is the first position
  that does; the output entry at that position is \<open>1 - epsilon\<close> and every other entry is
  \<open>epsilon / (K - 1)\<close>.
\<close>

theorem RobustMax_rows:
  assumes K: "2 \<le> num_classes self" and cols: "ncols F = num_classes self" and wf: "wf_tensor F"
  shows "\<exists>P. RobustMax_call self F = Inr P \<and> nrows P = nrows F \<and> ncols P = num_classes self
     \<and> (\<forall>i<nrows F.
          sum_list (rows P ! i) = 1
        \<and> argmax (rows F ! i) < num_classes self
        \<and> rows F ! i ! argmax (rows F ! i) = Max (set (rows F ! i))
        \<and> (\<forall>j<argmax (rows F ! i). rows F ! i ! j < Max (set (rows F ! i)))
        \<and> rows P ! i ! argmax (rows F ! i) = 1 - epsilon self
        \<and> (\<forall>c<num_classes self. c \<noteq> argmax (rows F ! i) \<longrightarrow>
              rows P ! i ! c = epsilon self / (real (num_classes self) - 1)))"
proof -
  let ?K = "num_classes self"
  let ?P = "\<lparr>ncols = ?K,
      rows = map (\<lambda>a. one_hot a ?K (1 - epsilon self) (eps_K1 self)) (map argmax (rows F))\<rparr>"
  have run: "RobustMax_call self F = Inr ?P"
    using K cols by (simp add: RobustMax_call_def tf_argmax_def)
  have row: "sum_list (rows ?P ! i) = 1 \<and> argmax (rows F ! i) < ?K
        \<and> rows F ! i ! argmax (rows F ! i) = Max (set (rows F ! i))
        \<and> (\<forall>j<argmax (rows F ! i). rows F ! i ! j < Max (set (rows F ! i)))
        \<and> rows ?P ! i ! argmax (rows F ! i) = 1 - epsilon self
        \<and> (\<forall>c<?K. c \<noteq> argmax (rows F ! i) \<longrightarrow> rows ?P ! i ! c = epsilon self / (real ?K - 1))"
    if i: "i < nrows F" for i
  proof -
    have len: "length (rows F ! i) = ?K" using wf_row[OF wf i] cols by simp
    then have ne: "rows F ! i \<noteq> []" using K by auto
    have a: "argmax (rows F ! i) < ?K" using argmax_less[OF ne] len by simp
    note g = argmax_greatest[OF ne]
    have "real ?K - 1 \<noteq> 0" using K by auto
    then have "(1 - epsilon self) + (real ?K - 1) * eps_K1 self = 1"
      by (simp add: eps_K1_def)
    then have s: "sum_list (one_hot (argmax (rows F ! i)) ?K (1 - epsilon self) (eps_K1 self)) = 1"
      using sum_list_one_hot[OF a] by simp
    have out: "sum_list (rows ?P ! i) = 1 \<and> rows ?P ! i ! argmax (rows F ! i) = 1 - epsilon self
        \<and> (\<forall>c<?K. c \<noteq> argmax (rows F ! i) \<longrightarrow> rows ?P ! i ! c = epsilon self / (real ?K - 1))"
      using i a s by (simp add: nrows_def one_hot_def eps_K1_def)
    show ?thesis using out a g by blast
  qed
  show ?thesis using run row by (auto simp: nrows_def)
qed

theorem RobustMax_rows_witness:
  "\<exists>P. RobustMax_call \<lparr>epsilon = 1 / 10, num_classes = 3\<rparr> \<lparr>ncols = 3, rows = [[1, 5, 2]]\<rparr> = Inr P
     \<and> sum_list (rows P ! 0) = 1
     \<and> argmax [1, 5, 2] = 1
     \<and> [1, 5, 2] ! argmax [1, 5, 2] = Max (set [1, 5, 2 :: real])
     \<and> rows P ! 0 ! 1 = 9 / 10 \<and> rows P ! 0 ! 0 = 1 / 20 \<and> rows P ! 0 ! 2 = 1 / 20"
proof -
  let ?r = "\<lparr>epsilon = 1 / 10, num_classes = 3\<rparr>"
  let ?F = "\<lparr>ncols = 3, rows = [[1, 5, 2]]\<rparr>"
  have h: "2 \<le> num_classes ?r" "ncols ?F = num_classes ?r" "wf_tensor ?F"
    by (simp_all add: wf_tensor_def)
  have a: "argmax [1, 5, 2::real] = 1" by (simp add: argmax_def)
  from RobustMax_rows[OF h] obtain P where P: "RobustMax_call ?r ?F = Inr P"
    "\<forall>i<nrows ?F. sum_list (rows P ! i) = 1 \<and> argmax (rows ?F ! i) < num_classes ?r
        \<and> rows ?F ! i ! argmax (rows ?F ! i) = Max (set (rows ?F ! i))
        \<and> (\<forall>j<argmax (rows ?F ! i). rows ?F ! i ! j < Max (set (rows ?F ! i)))
        \<and> rows P ! i ! argmax (rows ?F ! i) = 1 - epsilon ?r
        \<and> (\<forall>c<num_classes ?r. c \<noteq> argmax (rows ?F ! i) \<longrightarrow>
              rows P ! i ! c = epsilon ?r / (real (num_classes ?r) - 1))"
    by blast
  have "0 < nrows ?F" by (simp add: nrows_def)
  with P(2) have r: "sum_list (rows P ! 0) = 1"
    "rows ?F ! 0 ! argmax (rows ?F ! 0) = Max (set (rows ?F ! 0))"
    "rows P ! 0 ! argmax (rows ?F ! 0) = 1 - epsilon ?r"
    "\<forall>c<num_classes ?r. c \<noteq> argmax (rows ?F ! 0) \<longrightarrow>
              rows P ! 0 ! c = epsilon ?r / (real (num_classes ?r) - 1)"
    by blast+
  have m: "[1, 5, 2] ! argmax [1, 5, 2] = Max (set [1, 5, 2 :: real])" using r(2) by simp
  have "rows P ! 0 ! 0 = epsilon ?r / (real (num_classes ?r) - 1)"
    using r(4) a by (simp)
  moreover have "rows P ! 0 ! 2 = epsilon ?r / (real (num_classes ?r) - 1)"
    using r(4) a by (simp)
  ultimately show ?thesis using P(1) r(1,3) a m by simp
qed

section \<open>Non-negative conditional variance\<close>

lemma unit_sq_nonneg: "0 \<le> (p::real) \<Longrightarrow> p \<le> 1 \<Longrightarrow> 0 \<le> p - p\<^sup>2"
proof -
  assume a: "0 \<le> p" "p \<le> 1"
  have "p - p\<^sup>2 = p * (1 - p)" by (simp add: power2_eq_square algebra_simps)
  also have "0 \<le> p * (1 - p)" using a by (intro mult_nonneg_nonneg) auto
  finally show ?thesis .
qed

lemma nonneg_elementwise1: "(\<And>x. 0 \<le> f x) \<Longrightarrow> nonneg_tensor (elementwise1 f A)"
  by (simp add: nonneg_tensor_def elementwise1_def list_all_iff)

lemma inv_probit_range:
  assumes "- 1 \<le> erf tf (x / sqrt 2)" "erf tf (x / sqrt 2) \<le> 1"
  shows "1 / 1000 \<le> inv_probit tf x" "inv_probit tf x \<le> 1 - 1 / 1000"
  using assms by (simp_all add: inv_probit_def Let_def)

lemma inv_probit_unit: "erf_ok tf \<Longrightarrow> unit_interval_link tf Inv_probit"
  unfolding unit_interval_link_def erf_ok_def
proof (intro allI conjI)
  fix x
  assume a: "(\<forall>x. - 1 \<le> erf tf x \<and> erf tf x \<le> 1) \<and> (\<forall>x y. x \<le> y \<longrightarrow> erf tf x \<le> erf tf y)"
  then have r: "- 1 \<le> erf tf (x / sqrt 2)" "erf tf (x / sqrt 2) \<le> 1" by auto
  show "0 \<le> apply_invlink tf Inv_probit x" using inv_probit_range(1)[OF r] by simp
  show "apply_invlink tf Inv_probit x \<le> 1" using inv_probit_range(2)[OF r] by simp
qed

lemma weighted_square_expand:
  "sum_list (map (\<lambda>(p, y). p * (s * y - m)\<^sup>2) ps) =
     s\<^sup>2 * sum_list (map (\<lambda>(p, y). p * y\<^sup>2) ps)
     - 2 * s * m * sum_list (map (\<lambda>(p, y). p * y) ps)
     + m\<^sup>2 * sum_list (map fst ps)"
  for s m :: real
  by (induction ps) (auto simp: algebra_simps power2_eq_square)

lemma weighted_variance_nonneg:
  fixes ps :: "(real \<times> real) list"
  assumes nn: "\<forall>q\<in>set ps. 0 \<le> fst q" and le1: "sum_list (map fst ps) \<le> 1"
  shows "(sum_list (map (\<lambda>(p, y). p * y) ps))\<^sup>2 \<le> sum_list (map (\<lambda>(p, y). p * y\<^sup>2) ps)"
proof -
  let ?S = "sum_list (map fst ps)"
  let ?M = "sum_list (map (\<lambda>(p, y). p * y) ps)"
  let ?E = "sum_list (map (\<lambda>(p, y). p * y\<^sup>2) ps)"
  have S0: "0 \<le> ?S" using nn by (intro sum_list_nonneg) auto
  have E0: "0 \<le> ?E" using nn by (intro sum_list_nonneg) auto
  have "0 \<le> sum_list (map (\<lambda>(p, y). p * (?S * y - ?M)\<^sup>2) ps)"
    using nn by (intro sum_list_nonneg) auto
  then have "0 \<le> ?S\<^sup>2 * ?E - 2 * ?S * ?M * ?M + ?M\<^sup>2 * ?S"
    by (simp only: weighted_square_expand)
  also have "?S\<^sup>2 * ?E - 2 * ?S * ?M * ?M + ?M\<^sup>2 * ?S = ?S * (?S * ?E - ?M\<^sup>2)"
    by (simp add: algebra_simps power2_eq_square)
  finally have q: "0 \<le> ?S * (?S * ?E - ?M\<^sup>2)" .
  show ?thesis
  proof (cases "?S = 0")
    case True
    have "\<forall>x\<in>set (map fst ps). x = 0"
      using True nn by (subst (asm) sum_list_nonneg_eq_0_iff) auto
    then have "\<forall>q\<in>set ps. (case q of (p, y) \<Rightarrow> p * y) = 0" by auto
    then have "map (\<lambda>(p, y). p * y) ps = map (\<lambda>_. 0) ps" by (intro map_cong) auto
    then have "?M = sum_list (map (\<lambda>_. 0::real) ps)" by (simp only:)
    then have "?M = 0" by simp
    then show ?thesis using E0 by simp
  next
    case False
    then have "0 < ?S" using S0 by simp
    then have "0 \<le> ?S * ?E - ?M\<^sup>2" using q by (simp add: zero_le_mult_iff)
    moreover have "?S * ?E \<le> 1 * ?E" using le1 E0 by (intro mult_right_mono)
    ultimately show ?thesis by simp
  qed
qed

lemma unit_sq_le: "0 \<le> (p::real) \<Longrightarrow> p \<le> 1 \<Longrightarrow> p\<^sup>2 \<le> p"
  using unit_sq_nonneg[of p] by simp

lemma telescope_sum:
  "sum_list (map (\<lambda>(l, r). g l - g r) (zip (xs @ [t]) (b # xs))) = g t - (g b :: real)"
  by (induction xs arbitrary: b) auto

lemma telescope_nonneg:
  assumes "sorted_wrt (\<lambda>a c. g a \<le> (g c :: real)) (b # xs @ [t])"
  shows "\<forall>q\<in>set (zip (xs @ [t]) (b # xs)). g (snd q) \<le> g (fst q)"
  using assms
proof (induction xs arbitrary: b)
  case Nil
  then show ?case by simp
next
  case (Cons x xs)
  have "sorted_wrt (\<lambda>a c. g a \<le> g c) (x # xs @ [t])" using Cons.prems by simp
  from Cons.IH[OF this] have ih: "\<forall>q\<in>set (zip (xs @ [t]) (x # xs)). g (snd q) \<le> g (fst q)" .
  have "g b \<le> g x" using Cons.prems by simp
  then show ?case using ih by simp
qed

lemma inv_probit_mono:
  assumes "erf_ok tf" "x \<le> y"
  shows "inv_probit tf x \<le> inv_probit tf y"
proof -
  have "x / sqrt 2 \<le> y / sqrt 2" using assms(2) by (simp add: divide_right_mono)
  then have "erf tf (x / sqrt 2) \<le> erf tf (y / sqrt 2)" using assms(1) by (simp add: erf_ok_def)
  then show ?thesis by (simp add: inv_probit_def Let_def)
qed

lemma inv_probit_bounds:
  assumes "erf_ok tf"
  shows "1 / 1000 \<le> inv_probit tf x" "inv_probit tf x \<le> 1 - 1 / 1000"
proof -
  have r: "- 1 \<le> erf tf (x / sqrt 2)" "erf tf (x / sqrt 2) \<le> 1"
    using assms by (simp_all add: erf_ok_def)
  show "1 / 1000 \<le> inv_probit tf x" "inv_probit tf x \<le> 1 - 1 / 1000"
    using inv_probit_range[OF r] by simp_all
qed

lemma bounds_sorted:
  assumes ok: "erf_ok tf" and srt: "sorted es"
  shows "sorted_wrt (\<lambda>a c. inv_probit_bound tf a z \<le> inv_probit_bound tf c z)
           (Neg_inf # map Finite es @ [Pos_inf])"
proof -
  let ?g = "\<lambda>a. inv_probit_bound tf a z"
  have fin: "sorted_wrt (\<lambda>a c. ?g a \<le> ?g c) (map Finite es)"
    using srt
  proof (induction es)
    case Nil
    then show ?case by simp
  next
    case (Cons e es)
    have "\<forall>x\<in>set es. inv_probit tf (e - z) \<le> inv_probit tf (x - z)"
      using Cons.prems by (auto intro!: inv_probit_mono[OF ok])
    then show ?case using Cons by (simp add: inv_probit_bound_def)
  qed
  have lo: "\<forall>x\<in>set (map Finite es). ?g Neg_inf \<le> ?g x"
    using inv_probit_bounds(1)[OF ok] by (auto simp: inv_probit_bound_def)
  have hi: "\<forall>x\<in>set (map Finite es). ?g x \<le> ?g Pos_inf"
    using inv_probit_bounds(2)[OF ok] by (auto simp: inv_probit_bound_def)
  have ends: "?g Neg_inf \<le> ?g Pos_inf" by (simp add: inv_probit_bound_def)
  show ?thesis using fin lo hi ends by (simp add: sorted_wrt_append)
qed

lemma Ordinal_phi_facts:
  assumes ok: "erf_ok tf" and sg: "0 < sigma" and srt: "sorted bin_edges"
  shows "\<forall>p\<in>set (Ordinal_make_phi1 tf bin_edges sigma f). 0 \<le> p"
    and "sum_list (Ordinal_make_phi1 tf bin_edges sigma f) \<le> 1"
    and "length (Ordinal_make_phi1 tf bin_edges sigma f) = length bin_edges + 1"
proof -
  let ?es = "map (\<lambda>a. a / sigma) bin_edges"
  let ?g = "\<lambda>a. inv_probit_bound tf a (f / sigma)"
  have es: "sorted ?es"
    using srt sg by (induction bin_edges) (auto simp: divide_right_mono)
  have L: "scaled_bins_left bin_edges sigma = map Finite ?es @ [Pos_inf]"
    by (simp add: scaled_bins_left_def)
  have R: "scaled_bins_right bin_edges sigma = Neg_inf # map Finite ?es"
    by (simp add: scaled_bins_right_def)
  have phi: "Ordinal_make_phi1 tf bin_edges sigma f =
      map (\<lambda>(l, r). ?g l - ?g r) (zip (map Finite ?es @ [Pos_inf]) (Neg_inf # map Finite ?es))"
    unfolding Ordinal_make_phi1_def L R ..
  have nn: "\<forall>q\<in>set (zip (map Finite ?es @ [Pos_inf]) (Neg_inf # map Finite ?es)). ?g (snd q) \<le> ?g (fst q)"
    by (rule telescope_nonneg[OF bounds_sorted[OF ok es]])
  show "\<forall>p\<in>set (Ordinal_make_phi1 tf bin_edges sigma f). 0 \<le> p"
    unfolding phi using nn by auto
  have "sum_list (Ordinal_make_phi1 tf bin_edges sigma f) = ?g Pos_inf - ?g Neg_inf"
    unfolding phi by (rule telescope_sum)
  then show "sum_list (Ordinal_make_phi1 tf bin_edges sigma f) \<le> 1"
    by (simp add: inv_probit_bound_def)
  show "length (Ordinal_make_phi1 tf bin_edges sigma f) = length bin_edges + 1"
    unfolding phi by simp
qed

lemma Ordinal_conditional_variance1_nonneg:
  assumes ok: "erf_ok tf" and sg: "0 < sigma" and srt: "sorted bin_edges"
  shows "0 \<le> Ordinal_conditional_variance1 tf bin_edges sigma f"
proof -
  let ?phi = "Ordinal_make_phi1 tf bin_edges sigma f"
  let ?Ys = "map real [0..<length bin_edges + 1]"
  let ?ps = "zip ?phi ?Ys"
  note facts = Ordinal_phi_facts[OF ok sg srt, of f]
  have len: "length ?phi = length ?Ys" using facts(3) by simp
  have fst_ps: "map fst ?ps = ?phi" using len by simp
  have nn: "\<forall>q\<in>set ?ps. 0 \<le> fst q" using facts(1) by (auto dest: set_zip_leftD)
  have le1: "sum_list (map fst ?ps) \<le> 1" unfolding fst_ps by (rule facts(2))
  have "(sum_list (map (\<lambda>(p, y). p * y) ?ps))\<^sup>2 \<le> sum_list (map (\<lambda>(p, y). p * y\<^sup>2) ?ps)"
    by (rule weighted_variance_nonneg[OF nn le1])
  then show ?thesis by (simp add: Ordinal_conditional_variance1_def Let_def)
qed

lemma softmax_unit:
  assumes "p \<in> set (softmax f)"
  shows "0 \<le> p \<and> p \<le> 1"
proof -
  from assms obtain x where x: "x \<in> set f" "p = exp x / sum_list (map exp f)"
    by (auto simp: softmax_def)
  have "exp x \<le> sum_list (map exp f)"
    using x(1) by (intro member_le_sum_list) auto
  moreover have "0 < exp x" by simp
  ultimately have "0 < sum_list (map exp f)" "exp x \<le> sum_list (map exp f)" by linarith+
  then show ?thesis using x(2) by simp
qed

lemma nonneg_SoftMax: "nonneg_tensor (SoftMax_conditional_variance F)"
  using softmax_unit
  by (auto simp: nonneg_tensor_def SoftMax_conditional_variance_def SoftMax_conditional_mean_def
      elementwise1_def list_all_iff Let_def intro!: unit_sq_le)

lemma nonneg_MultiClass:
  assumes "0 < epsilon r" "epsilon r < 1" "2 \<le> num_classes r" "0 < ncols F"
    and "mc_invlink self = RobustMax r"
  shows "\<exists>V. MultiClass_conditional_variance self F = Inr V \<and> nonneg_tensor V"
proof -
  have k: "1 \<le> real (num_classes r) - 1" using assms(3) by simp
  then have "epsilon r / (real (num_classes r) - 1) \<le> epsilon r"
    using assms(1) by (simp add: divide_le_eq mult_le_cancel_left1)
  then have e: "0 \<le> eps_K1 r" "eps_K1 r \<le> 1"
    using assms(1,2) k by (simp_all add: eps_K1_def)
  have v: "0 \<le> p - p\<^sup>2" if "p = 1 - epsilon r \<or> p = eps_K1 r" for p
    using that e assms(1,2) by (auto intro!: unit_sq_le)
  show ?thesis
    using assms(4,5) v
    by (auto simp: MultiClass_conditional_variance_def MultiClass_conditional_mean_def
        RobustMax_call_def tf_argmax_def nonneg_tensor_def elementwise1_def one_hot_def list_all_iff)
qed

text \<open>
  Claim C4. For every concrete likelihood variant with hyperparameters in their valid
  domain and every valid latent input \<open>F\<close>, \<open>conditional_variance(F)\<close> returns a tensor and
  every entry of it is non-negative.
\<close>

theorem conditional_variance_nonneg:
  assumes hyp: "valid_hyperparameters tf lik" and lat: "valid_latent lik F"
  shows "\<exists>V. conditional_variance tf lik F = Inr V \<and> nonneg_tensor V"
proof (cases lik)
  case (Gaussian variance)
  then show ?thesis using hyp
    by (simp add: Gaussian_conditional_variance_def nonneg_elementwise1)
next
  case (Poisson invlink binsize)
  then have "\<And>f. 0 \<le> Poisson_conditional_variance1 tf invlink binsize f"
    using hyp by (simp add: Poisson_conditional_variance1_def nonneg_link_def)
  then show ?thesis using Poisson
    by (simp add: Poisson_conditional_variance_def nonneg_elementwise1)
next
  case (Exponential invlink)
  then show ?thesis
    by (simp add: Exponential_conditional_variance_def nonneg_elementwise1)
next
  case (StudentT scale df)
  then have "0 \<le> scale\<^sup>2 * (df / (df - 2))" using hyp by simp
  then show ?thesis using StudentT
    by (simp add: StudentT_conditional_variance_def Let_def nonneg_elementwise1)
next
  case (Bernoulli invlink)
  then have "\<And>f. 0 \<le> Bernoulli_conditional_variance1 tf invlink f"
    using hyp unit_sq_nonneg
    by (simp add: Bernoulli_conditional_variance1_def Bernoulli_conditional_mean1_def
        unit_interval_link_def Let_def)
  then show ?thesis using Bernoulli
    by (simp add: Bernoulli_conditional_variance_def nonneg_elementwise1)
next
  case (Gamma invlink shape)
  then have "\<And>f. 0 \<le> shape * (apply_invlink tf invlink f)\<^sup>2" using hyp by simp
  then show ?thesis using Gamma
    by (simp add: Gamma_conditional_variance_def Let_def nonneg_elementwise1)
next
  case (Beta invlink scale)
  have "0 \<le> (apply_invlink tf invlink f - (apply_invlink tf invlink f)\<^sup>2) / (scale + 1)" for f
  proof -
    have "0 \<le> apply_invlink tf invlink f - (apply_invlink tf invlink f)\<^sup>2"
      using hyp Beta by (intro unit_sq_nonneg) (simp_all add: unit_interval_link_def)
    moreover have "0 < scale + 1" using hyp Beta by simp
    ultimately show ?thesis by (intro divide_nonneg_pos)
  qed
  then show ?thesis using Beta
    by (simp add: Beta_conditional_variance_def Let_def nonneg_elementwise1)
next
  case (Ordinal bin_edges sigma)
  then have "\<And>f. 0 \<le> Ordinal_conditional_variance1 tf bin_edges sigma f"
    using hyp by (intro Ordinal_conditional_variance1_nonneg) simp_all
  then show ?thesis using Ordinal
    by (simp add: Ordinal_conditional_variance_def nonneg_elementwise1)
next
  case (MultiClass self)
  then obtain r where r: "mc_invlink self = RobustMax r"
      "0 < epsilon r" "epsilon r < 1" "2 \<le> num_classes r"
    using hyp by (cases "mc_invlink self") auto
  have "0 < ncols F" using lat MultiClass by simp
  then show ?thesis using MultiClass nonneg_MultiClass[OF r(2,3,4) _ r(1)] by simp
next
  case (GaussianMC variance)
  then show ?thesis using hyp
    by (simp add: Gaussian_conditional_variance_def nonneg_elementwise1)
next
  case (SoftMax n)
  then show ?thesis by (simp add: nonneg_SoftMax)
qed

lemma sample_erf_range: "- 1 \<le> erf sample_primitives x" "erf sample_primitives x \<le> 1"
proof -
  let ?y = "x / (1 + \<bar>x\<bar>)"
  have "\<bar>x\<bar> \<le> 1 + \<bar>x\<bar>" by simp
  then have a: "\<bar>?y\<bar> \<le> 1" by (simp add: abs_divide)
  have e: "erf sample_primitives x = ?y" by (simp add: sample_primitives_def)
  show "- 1 \<le> erf sample_primitives x" unfolding e using abs_le_D2[OF a] by linarith
  show "erf sample_primitives x \<le> 1" unfolding e using abs_le_D1[OF a] .
qed

lemma sample_probit_unit: "unit_interval_link sample_primitives Inv_probit"
  unfolding unit_interval_link_def
proof (intro allI conjI)
  fix x
  note r = inv_probit_range[OF sample_erf_range, of x]
  show "0 \<le> apply_invlink sample_primitives Inv_probit x" using r(1) by simp
  show "apply_invlink sample_primitives Inv_probit x \<le> 1" using r(2) by simp
qed

theorem conditional_variance_nonneg_witness:
  "conditional_variance sample_primitives (StudentT 1 3) \<lparr>ncols = 1, rows = [[0]]\<rparr>
     = Inr \<lparr>ncols = 1, rows = [[3]]\<rparr>
   \<and> nonneg_tensor \<lparr>ncols = 1, rows = [[3]]\<rparr>
   \<and> (\<exists>V. conditional_variance sample_primitives (Bernoulli Inv_probit)
              \<lparr>ncols = 2, rows = [[0, 7]]\<rparr> = Inr V \<and> nonneg_tensor V)"
proof -
  have h1: "valid_hyperparameters sample_primitives (StudentT 1 3)" by simp
  have h2: "valid_latent (StudentT 1 3) \<lparr>ncols = 1, rows = [[0]]\<rparr>" by simp
  have v: "conditional_variance sample_primitives (StudentT 1 3) \<lparr>ncols = 1, rows = [[0]]\<rparr>
     = Inr \<lparr>ncols = 1, rows = [[3]]\<rparr>"
    by (simp add: StudentT_conditional_variance_def elementwise1_def)
  have h3: "valid_hyperparameters sample_primitives (Bernoulli Inv_probit)"
    by (simp add: sample_probit_unit)
  have h4: "valid_latent (Bernoulli Inv_probit) \<lparr>ncols = 2, rows = [[0, 7]]\<rparr>" by simp
  show ?thesis
    using conditional_variance_nonneg[OF h1 h2] conditional_variance_nonneg[OF h3 h4] v by simp
qed

section \<open>Poisson: closed form and quadrature\<close>

lemma quad_affine_exp:
  fixes ps :: "(real \<times> real) list"
  shows "sum_list (map (\<lambda>(f, w). (y * f + c - b * exp f) * w)
            (map (\<lambda>(x, w). (mu + s * x, w / sqrt pi)) ps))
       = y * (mu * sum_list (map (\<lambda>(x, w). w / sqrt pi) ps)
              + s * sum_list (map (\<lambda>(x, w). x * (w / sqrt pi)) ps))
         + c * sum_list (map (\<lambda>(x, w). w / sqrt pi) ps)
         - b * sum_list (map (\<lambda>(f, w). exp f * w) (map (\<lambda>(x, w). (mu + s * x, w / sqrt pi)) ps))"
  by (induction ps) (auto simp: algebra_simps add_divide_distrib)

lemma Poisson_logp1_exp:
  assumes "0 < binsize"
  shows "Poisson_logp1 tf Tf_exp binsize f y
       = y * f + (y * ln binsize - lgamma tf (y + 1)) - binsize * exp f"
  using assms by (simp add: Poisson_logp1_def poisson_def ln_mult algebra_simps)

lemma Poisson_closed_minus_quadrature:
  assumes b: "0 < binsize" and gh: "exact_up_to_degree_1 gh"
  shows "(y * mu - exp (mu + v / 2) * binsize - lgamma tf (y + 1) + y * ln binsize)
         - ndiagquad1 gh False (\<lambda>f. Poisson_logp1 tf Tf_exp binsize f y) mu v
       = binsize * (ndiagquad1 gh False exp mu v - exp (mu + v / 2))"
proof -
  let ?ps = "zip (fst gh) (snd gh)"
  let ?c = "y * ln binsize - lgamma tf (y + 1)"
  have A: "sum_list (map (\<lambda>(x, w). w / sqrt pi) ?ps) = 1"
    and B: "sum_list (map (\<lambda>(x, w). x * (w / sqrt pi)) ?ps) = 0"
    using gh by (simp_all add: exact_up_to_degree_1_def)
  have "ndiagquad1 gh False (\<lambda>f. Poisson_logp1 tf Tf_exp binsize f y) mu v
      = sum_list (map (\<lambda>(f, w). (y * f + ?c - binsize * exp f) * w)
            (map (\<lambda>(x, w). (mu + sqrt (2 * v) * x, w / sqrt pi)) ?ps))"
    by (simp add: ndiagquad1_def gh_points_def Poisson_logp1_exp[OF b])
  also have "\<dots> = y * mu + ?c - binsize * ndiagquad1 gh False exp mu v"
    unfolding quad_affine_exp A B by (simp add: ndiagquad1_def gh_points_def)
  finally show ?thesis by (simp add: algebra_simps)
qed

lemma sample_rule_exact: "exact_up_to_degree_1 (hermgauss sample_primitives num_gauss_hermite_points)"
  by (simp add: exact_up_to_degree_1_def sample_primitives_def num_gauss_hermite_points_def
      zip_replicate sum_list_replicate)

text \<open>
  Claim C5. \<open>Poisson.variational_expectations(Fmu, Fvar, Y)\<close> is the closed form
  \<open>Y Fmu - binsize exp(Fmu + Fvar / 2) - lgamma(Y + 1) + Y log(binsize)\<close> when the inverse
  link is \<open>tf.exp\<close>, and the generic quadrature of \<open>logp\<close> for every other link. In the
  \<open>exp\<close> case the two agree to within the quadrature error: for a rule that is exact up
  to degree 1 they differ, entry by entry, by \<open>binsize\<close> times the error of the rule on
  \<open>exp\<close>, the only term of \<open>logp\<close> that is not a polynomial of degree 1 in the latent value.
\<close>

theorem Poisson_variational_expectations_dispatch:
  "Poisson_variational_expectations tf Tf_exp binsize Fmu Fvar Y =
     elementwise3
       (\<lambda>y mu v. y * mu - binsize * exp (mu + v / 2) - lgamma tf (y + 1) + y * ln binsize)
       Y Fmu Fvar
   \<and> (invlink \<noteq> Tf_exp \<longrightarrow>
        Poisson_variational_expectations tf invlink binsize Fmu Fvar Y =
          Likelihood_variational_expectations tf (Poisson_logp1 tf invlink binsize) Fmu Fvar Y)
   \<and> (0 < binsize \<and> exact_up_to_degree_1 (hermgauss tf num_gauss_hermite_points)
        \<and> same_shape Fmu Fvar \<and> same_shape Fmu Y \<longrightarrow>
        (\<exists>C Q. Poisson_variational_expectations tf Tf_exp binsize Fmu Fvar Y = Inr C
           \<and> Likelihood_variational_expectations tf (Poisson_logp1 tf Tf_exp binsize) Fmu Fvar Y
               = Inr Q
           \<and> same_shape C Fmu \<and> same_shape Q Fmu
           \<and> (\<forall>i<nrows Fmu. \<forall>j<ncols Fmu.
                 \<bar>rows C ! i ! j - rows Q ! i ! j\<bar> =
                   binsize * quadrature_error (hermgauss tf num_gauss_hermite_points) exp
                     (rows Fmu ! i ! j) (rows Fvar ! i ! j)
                     (exp (rows Fmu ! i ! j + rows Fvar ! i ! j / 2)))))"
proof (intro conjI impI)
  show "Poisson_variational_expectations tf Tf_exp binsize Fmu Fvar Y =
     elementwise3
       (\<lambda>y mu v. y * mu - binsize * exp (mu + v / 2) - lgamma tf (y + 1) + y * ln binsize)
       Y Fmu Fvar"
    by (simp add: Poisson_variational_expectations_def mult.commute)
next
  assume "invlink \<noteq> Tf_exp"
  then show "Poisson_variational_expectations tf invlink binsize Fmu Fvar Y =
          Likelihood_variational_expectations tf (Poisson_logp1 tf invlink binsize) Fmu Fvar Y"
    by (cases invlink) (simp_all add: Poisson_variational_expectations_def)
next
  assume a: "0 < binsize \<and> exact_up_to_degree_1 (hermgauss tf num_gauss_hermite_points)
        \<and> same_shape Fmu Fvar \<and> same_shape Fmu Y"
  let ?gh = "hermgauss tf num_gauss_hermite_points"
  let ?cf = "\<lambda>y mu v. y * mu - exp (mu + v / 2) * binsize - lgamma tf (y + 1) + y * ln binsize"
  let ?C = "tabulate (nrows Y) (ncols Y) (\<lambda>i j. ?cf (entry Y i j) (entry Fmu i j) (entry Fvar i j))"
  let ?Q = "tabulate (nrows Fmu) (ncols Fmu)
      (\<lambda>i j. ndiagquad1 ?gh False (\<lambda>f. Poisson_logp1 tf Tf_exp binsize f (entry Y i j))
                (entry Fmu i j) (entry Fvar i j))"
  have sY: "same_shape Y Fmu" "same_shape Y Fvar" using a by (auto simp: same_shape_def)
  have sF: "same_shape Fmu Fvar" "same_shape Fmu Y" using a by auto
  have C: "Poisson_variational_expectations tf Tf_exp binsize Fmu Fvar Y = Inr ?C"
    by (simp add: Poisson_variational_expectations_def elementwise3_same_shape[OF sY])
  have Q: "Likelihood_variational_expectations tf (Poisson_logp1 tf Tf_exp binsize) Fmu Fvar Y = Inr ?Q"
    by (simp add: Likelihood_variational_expectations_def ndiagquad_Y_def
        elementwise3_same_shape[OF sF])
  have sh: "same_shape ?C Fmu" "same_shape ?Q Fmu" using sY by (simp_all add: same_shape_def)
  have el: "\<bar>rows ?C ! i ! j - rows ?Q ! i ! j\<bar> =
      binsize * quadrature_error ?gh exp (rows Fmu ! i ! j) (rows Fvar ! i ! j)
        (exp (rows Fmu ! i ! j + rows Fvar ! i ! j / 2))"
    if ij: "i < nrows Fmu" "j < ncols Fmu" for i j
  proof -
    have b: "i < nrows Y" "j < ncols Y" "i < nrows Fvar" "j < ncols Fvar"
      using ij a by (auto simp: same_shape_def)
    have "rows ?C ! i ! j - rows ?Q ! i ! j =
        binsize * (ndiagquad1 ?gh False exp (rows Fmu ! i ! j) (rows Fvar ! i ! j)
                   - exp (rows Fmu ! i ! j + rows Fvar ! i ! j / 2))"
      using ij b a by (simp add: rows_tabulate_nth entry_in_range Poisson_closed_minus_quadrature)
    then show ?thesis using a by (simp add: quadrature_error_def abs_mult)
  qed
  show "\<exists>C Q. Poisson_variational_expectations tf Tf_exp binsize Fmu Fvar Y = Inr C
           \<and> Likelihood_variational_expectations tf (Poisson_logp1 tf Tf_exp binsize) Fmu Fvar Y
               = Inr Q
           \<and> same_shape C Fmu \<and> same_shape Q Fmu
           \<and> (\<forall>i<nrows Fmu. \<forall>j<ncols Fmu.
                 \<bar>rows C ! i ! j - rows Q ! i ! j\<bar> =
                   binsize * quadrature_error ?gh exp
                     (rows Fmu ! i ! j) (rows Fvar ! i ! j)
                     (exp (rows Fmu ! i ! j + rows Fvar ! i ! j / 2)))"
    using C Q sh el by blast
qed

theorem Poisson_variational_expectations_dispatch_witness:
  "Poisson_variational_expectations sample_primitives Tf_exp 1
       \<lparr>ncols = 1, rows = [[0]]\<rparr> \<lparr>ncols = 1, rows = [[0]]\<rparr> \<lparr>ncols = 1, rows = [[1]]\<rparr>
     = Inr \<lparr>ncols = 1, rows = [[- 1]]\<rparr>
   \<and> Poisson_variational_expectations sample_primitives Inv_probit 1
       \<lparr>ncols = 1, rows = [[0]]\<rparr> \<lparr>ncols = 1, rows = [[0]]\<rparr> \<lparr>ncols = 1, rows = [[1]]\<rparr>
     = Likelihood_variational_expectations sample_primitives
         (Poisson_logp1 sample_primitives Inv_probit 1)
         \<lparr>ncols = 1, rows = [[0]]\<rparr> \<lparr>ncols = 1, rows = [[0]]\<rparr> \<lparr>ncols = 1, rows = [[1]]\<rparr>
   \<and> (\<exists>C Q. Poisson_variational_expectations sample_primitives Tf_exp 1
                \<lparr>ncols = 1, rows = [[0]]\<rparr> \<lparr>ncols = 1, rows = [[0]]\<rparr> \<lparr>ncols = 1, rows = [[1]]\<rparr>
              = Inr C
           \<and> Likelihood_variational_expectations sample_primitives
                (Poisson_logp1 sample_primitives Tf_exp 1)
                \<lparr>ncols = 1, rows = [[0]]\<rparr> \<lparr>ncols = 1, rows = [[0]]\<rparr> \<lparr>ncols = 1, rows = [[1]]\<rparr>
              = Inr Q
           \<and> \<bar>rows C ! 0 ! 0 - rows Q ! 0 ! 0\<bar> =
               1 * quadrature_error (hermgauss sample_primitives num_gauss_hermite_points) exp 0 0
                     (exp (0 + 0 / 2)))"
proof -
  let ?Fmu = "\<lparr>ncols = 1, rows = [[0::real]]\<rparr>"
  let ?Fvar = "\<lparr>ncols = 1, rows = [[0::real]]\<rparr>"
  let ?Y = "\<lparr>ncols = 1, rows = [[1::real]]\<rparr>"
  note t = Poisson_variational_expectations_dispatch[of sample_primitives 1 ?Fmu ?Fvar ?Y Inv_probit]
  have ev: "elementwise3
       (\<lambda>y mu v. y * mu - 1 * exp (mu + v / 2) - lgamma sample_primitives (y + 1) + y * ln 1)
       ?Y ?Fmu ?Fvar = Inr \<lparr>ncols = 1, rows = [[- 1]]\<rparr>"
    by (simp add: elementwise3_def nrows_def tabulate_def entry_def sample_primitives_def)
  have p1: "Poisson_variational_expectations sample_primitives Tf_exp 1 ?Fmu ?Fvar ?Y
      = Inr \<lparr>ncols = 1, rows = [[- 1]]\<rparr>"
    using t ev by simp
  have ne: "Inv_probit \<noteq> Tf_exp" by simp
  have p2: "Poisson_variational_expectations sample_primitives Inv_probit 1 ?Fmu ?Fvar ?Y
     = Likelihood_variational_expectations sample_primitives
         (Poisson_logp1 sample_primitives Inv_probit 1) ?Fmu ?Fvar ?Y"
    using t ne by blast
  have h: "0 < (1::real) \<and> exact_up_to_degree_1 (hermgauss sample_primitives num_gauss_hermite_points)
        \<and> same_shape ?Fmu ?Fvar \<and> same_shape ?Fmu ?Y"
    by (simp add: sample_rule_exact same_shape_def nrows_def)
  from t h obtain C Q where CQ:
    "Poisson_variational_expectations sample_primitives Tf_exp 1 ?Fmu ?Fvar ?Y = Inr C"
    "Likelihood_variational_expectations sample_primitives
        (Poisson_logp1 sample_primitives Tf_exp 1) ?Fmu ?Fvar ?Y = Inr Q"
    "\<forall>i<nrows ?Fmu. \<forall>j<ncols ?Fmu.
        \<bar>rows C ! i ! j - rows Q ! i ! j\<bar> =
          1 * quadrature_error (hermgauss sample_primitives num_gauss_hermite_points) exp
                (rows ?Fmu ! i ! j) (rows ?Fvar ! i ! j)
                (exp (rows ?Fmu ! i ! j + rows ?Fvar ! i ! j / 2))"
    by blast
  have "\<bar>rows C ! 0 ! 0 - rows Q ! 0 ! 0\<bar> =
      1 * quadrature_error (hermgauss sample_primitives num_gauss_hermite_points) exp 0 0
            (exp (0 + 0 / 2))"
    using CQ(3) by (simp add: nrows_def)
  then show ?thesis using p1 p2 CQ(1,2) by blast
qed

end
